theory Spec2Isabelle
  imports Main
begin

section \<open>The lifecycle orchestrator (Application.cpp) as state passing with an event log\<close>

text \<open>
  \<open>Application\<close> owns the GUI flag and the current project and drives its collaborators
  (settings store, colour scheme, storage cache, project, main view, component manager,
  message queue, task scheduler). None of the collaborators is part of the translated
  file, so every call into one of them is recorded as an event, in program order, and
  may raise an exception as decided by a parameter of the model. What the orchestrator
  reads back from a collaborator (the recent-projects list, the answer of the
  confirmation dialog, the trial flag) is either a field of the modelled state or a
  parameter.
\<close>

subsection \<open>Data\<close>

type_synonym FilePath = string

text \<open>
  Modelled from the spec: \<open>ApplicationSettings\<close> is not among the sources. The settings
  store holds the recent-projects list and the colour-scheme path; \<open>load\<close> replaces the
  in-memory settings by the persisted ones and \<open>save\<close> persists the in-memory ones.
\<close>

record ApplicationSettings =
  getRecentProjects :: "FilePath list"
  getColorSchemePath :: FilePath

text \<open>
  Modelled from the spec: \<open>Project\<close> is not among the sources. A project created for a
  settings file answers \<open>getProjectSettingsFilePath\<close> with that file.
\<close>

datatype Project = Project (getProjectSettingsFilePath: FilePath)

datatype MessageStatus =
  MessageStatus (status_text: string) (isError: bool) (isLoading: bool)

datatype MessageRefresh =
  MessageRefresh (uiOnly: bool) (refresh_all: bool) (reloadSettings: bool)

datatype MessageLoadProject =
  MessageLoadProject (projectSettingsFilePath: FilePath) (forceRefresh: bool)

datatype MessageSwitchColorScheme =
  MessageSwitchColorScheme (colorSchemePath: FilePath)

text \<open>The messages the orchestrator itself dispatches.\<close>

datatype Message = Status MessageStatus | Refresh MessageRefresh

text \<open>The calls the orchestrator makes into its collaborators.\<close>

datatype call =
    ApplicationSettings_load
  | ApplicationSettings_setRecentProjects "FilePath list"
  | ApplicationSettings_save
  | ColorScheme_load FilePath
  | GraphViewStyle_loadStyleSettings
  | StorageCache_clear
  | Project_create FilePath
  | Project_refresh
  | Project_forceRefresh
  | Project_logStats
  | MainView_confirm string "string list"
  | MainView_setTitle string
  | MainView_hideStartScreen
  | MainView_updateRecentProjectMenu
  | MainView_activateWindow
  | MainView_saveLayout
  | ComponentManager_clearComponents
  | ComponentManager_refreshViews
  | MessageQueue_stopMessageLoop
  | MessageQueue_setSendMessagesAsTasks bool
  | MessageQueue_startMessageLoopThreaded
  | TaskScheduler_startSchedulerLoopThreaded
  | TaskScheduler_stopSchedulerLoop

datatype event = Call call | Dispatch Message | LogError string

text \<open>
  A C++ exception thrown by a collaborator call, or the dereference of the empty
  \<open>m_project\<close> pointer (which no \<open>catch\<close> intercepts).
\<close>

datatype fault = Exception call | NullPointer

text \<open>
  The parameters: which collaborator calls throw, the value of \<open>isTrial()\<close>, the choice
  index returned by \<open>MainView::confirm\<close>, and \<open>FilePath::fileName\<close>.
\<close>

record Collaborators =
  throws :: "call \<Rightarrow> bool"
  isTrial :: bool
  confirmResult :: int
  fileName :: "FilePath \<Rightarrow> string"

record Application =
  m_hasGUI :: bool
  m_project :: "Project option"
  appSettings :: ApplicationSettings
  settingsFile :: ApplicationSettings

text \<open>
  A member function maps the state to: the fault that left it (if any), the state it
  leaves, and the events it produced, oldest first.
\<close>

type_synonym action = "Application \<Rightarrow> fault option \<times> Application \<times> event list"

definition raised :: "fault option \<times> Application \<times> event list \<Rightarrow> fault option" where
  "raised r = fst r"

definition after :: "fault option \<times> Application \<times> event list \<Rightarrow> Application" where
  "after r = fst (snd r)"

definition emitted :: "fault option \<times> Application \<times> event list \<Rightarrow> event list" where
  "emitted r = snd (snd r)"

subsection \<open>Control flow\<close>

text \<open>Statements in sequence: the first fault ends the sequence.\<close>

fun seqA :: "action list \<Rightarrow> action" where
  "seqA [] s = (None, s, [])"
| "seqA (a # as) s =
     (case a s of
        (Some f, s', es) \<Rightarrow> (Some f, s', es)
      | (None, s', es) \<Rightarrow>
          (case seqA as s' of (r, s'', es') \<Rightarrow> (r, s'', es @ es')))"

text \<open>\<open>try { body } catch (...) { handler }\<close>: every C++ exception is caught.\<close>

definition tryCatchAll :: "action \<Rightarrow> action \<Rightarrow> action" where
  "tryCatchAll body handler s =
     (case body s of
        (Some (Exception c), s', es) \<Rightarrow>
          (case handler s' of (r, s'', es') \<Rightarrow> (r, s'', es @ es'))
      | (Some NullPointer, s', es) \<Rightarrow> (Some NullPointer, s', es)
      | (None, s', es) \<Rightarrow> (None, s', es))"

definition call :: "Collaborators \<Rightarrow> call \<Rightarrow> action" where
  "call env c s = (if throws env c then Some (Exception c) else None, s, [Call c])"

definition dispatch :: "Message \<Rightarrow> action" where
  "dispatch m s = (None, s, [Dispatch m])"

definition LOG_ERROR_STREAM :: "string \<Rightarrow> action" where
  "LOG_ERROR_STREAM msg s = (None, s, [LogError msg])"

definition assign :: "(Application \<Rightarrow> Application) \<Rightarrow> action" where
  "assign f s = (None, f s, [])"

definition whenGUI :: "action \<Rightarrow> action" where
  "whenGUI a s = (if m_hasGUI s then a s else (None, s, []))"

subsection \<open>The settings store\<close>

definition ApplicationSettings_load_m :: "Collaborators \<Rightarrow> action" where
  "ApplicationSettings_load_m env =
     seqA [call env ApplicationSettings_load,
           assign (\<lambda>s. s\<lparr>appSettings := settingsFile s\<rparr>)]"

definition ApplicationSettings_setRecentProjects_m ::
  "Collaborators \<Rightarrow> FilePath list \<Rightarrow> action" where
  "ApplicationSettings_setRecentProjects_m env recent =
     seqA [call env (ApplicationSettings_setRecentProjects recent),
           assign (\<lambda>s. s\<lparr>appSettings := (appSettings s)\<lparr>getRecentProjects := recent\<rparr>\<rparr>)]"

definition ApplicationSettings_save_m :: "Collaborators \<Rightarrow> action" where
  "ApplicationSettings_save_m env =
     seqA [call env ApplicationSettings_save,
           assign (\<lambda>s. s\<lparr>settingsFile := appSettings s\<rparr>)]"

subsection \<open>Application::loadStyle, Application::loadSettings\<close>

definition loadStyle :: "Collaborators \<Rightarrow> FilePath \<Rightarrow> action" where
  "loadStyle env colorSchemePath' =
     seqA [call env (ColorScheme_load colorSchemePath'),
           call env GraphViewStyle_loadStyleSettings]"

definition loadSettings :: "Collaborators \<Rightarrow> action" where
  "loadSettings env =
     seqA [ApplicationSettings_load_m env,
           (\<lambda>s. loadStyle env (getColorSchemePath (appSettings s)) s)]"

subsection \<open>Application::updateRecentProjects\<close>

text \<open>\<open>std::find\<close> followed by \<open>erase\<close> of the iterator found: the first equal entry goes.\<close>

fun find_erase :: "FilePath \<Rightarrow> FilePath list \<Rightarrow> FilePath list" where
  "find_erase p [] = []"
| "find_erase p (x # xs) = (if x = p then xs else x # find_erase p xs)"

text \<open>\<open>while (recentProjects.size() > 7) recentProjects.pop_back();\<close>\<close>

function pop_back_while_over_7 :: "FilePath list \<Rightarrow> FilePath list" where
  "pop_back_while_over_7 xs =
     (if length xs > 7 then pop_back_while_over_7 (butlast xs) else xs)"
  by pat_completeness auto
termination
  by (relation "measure length") auto

declare pop_back_while_over_7.simps [simp del]

text \<open>The local vector \<open>recentProjects\<close> when it is handed to \<open>setRecentProjects\<close>.\<close>

definition recentProjects_updated :: "FilePath \<Rightarrow> FilePath list \<Rightarrow> FilePath list" where
  "recentProjects_updated projectSettingsFilePath' recentProjects =
     (let erased = (if length recentProjects \<noteq> 0
                    then find_erase projectSettingsFilePath' recentProjects
                    else recentProjects);
          inserted = projectSettingsFilePath' # erased
      in pop_back_while_over_7 inserted)"

definition updateRecentProjects :: "Collaborators \<Rightarrow> FilePath \<Rightarrow> action" where
  "updateRecentProjects env projectSettingsFilePath' =
     whenGUI (\<lambda>s.
       seqA [ApplicationSettings_setRecentProjects_m env
               (recentProjects_updated projectSettingsFilePath'
                  (getRecentProjects (appSettings s))),
             ApplicationSettings_save_m env,
             call env MainView_updateRecentProjectMenu] s)"

subsection \<open>Application::loadProject, createAndLoadProject, refreshProject\<close>

definition loadProject :: "Collaborators \<Rightarrow> FilePath \<Rightarrow> action" where
  "loadProject env projectSettingsFilePath' =
     whenGUI (call env ComponentManager_clearComponents)"

definition createAndLoadProject_try :: "Collaborators \<Rightarrow> FilePath \<Rightarrow> action" where
  "createAndLoadProject_try env projectSettingsFilePath' =
     seqA [updateRecentProjects env projectSettingsFilePath',
           call env StorageCache_clear,
           call env (Project_create projectSettingsFilePath'),
           assign (\<lambda>s. s\<lparr>m_project := Some (Project projectSettingsFilePath')\<rparr>),
           loadProject env projectSettingsFilePath',
           whenGUI (seqA
             [call env (MainView_setTitle
                (''Coati - '' @ fileName env projectSettingsFilePath')),
              call env MainView_hideStartScreen,
              call env ComponentManager_refreshViews])]"

definition createAndLoadProject_catch :: action where
  "createAndLoadProject_catch =
     seqA [LOG_ERROR_STREAM ''Failed to load project.'',
           dispatch (Status (MessageStatus ''Failed to load project.'' True False))]"

definition createAndLoadProject :: "Collaborators \<Rightarrow> FilePath \<Rightarrow> action" where
  "createAndLoadProject env projectSettingsFilePath' =
     seqA [dispatch (Status (MessageStatus
             (''Loading Project: '' @ projectSettingsFilePath') False True)),
           tryCatchAll (createAndLoadProject_try env projectSettingsFilePath')
             createAndLoadProject_catch]"

definition refreshProject :: "Collaborators \<Rightarrow> bool \<Rightarrow> action" where
  "refreshProject env force =
     seqA [dispatch (Status (MessageStatus ''Refreshing Project'' False False)),
           call env StorageCache_clear,
           whenGUI (call env ComponentManager_refreshViews),
           (\<lambda>s. case m_project s of
                   None \<Rightarrow> (Some NullPointer, s, [])
                 | Some project \<Rightarrow>
                     (if force then call env Project_forceRefresh s
                      else call env Project_refresh s))]"

subsection \<open>The message handlers\<close>

text \<open>
  \<open>MainView::confirm\<close> is given the options Yes and No, in this order, and returns the
  index of the option chosen: the answer 1 is No. The \<open>TRACE\<close> profiling macro at the
  head of the handlers has no effect on the orchestrator and is left out.
\<close>

definition reindex_question :: string where
  "reindex_question =
     ''Some settings were changed, the project needs to be fully reindexed. '' @
     ''Do you want to reindex the project?''"

text \<open>\<open>!m_project || projectSettingsFilePath != m_project->getProjectSettingsFilePath()\<close>\<close>

definition other_project :: "FilePath \<Rightarrow> Application \<Rightarrow> bool" where
  "other_project projectSettingsFilePath' s =
     (case m_project s of
        None \<Rightarrow> True
      | Some project \<Rightarrow> projectSettingsFilePath' \<noteq> getProjectSettingsFilePath project)"

definition handleMessage_LoadProject :: "Collaborators \<Rightarrow> MessageLoadProject \<Rightarrow> action" where
  "handleMessage_LoadProject env message =
     seqA [loadSettings env,
           (\<lambda>s. if projectSettingsFilePath message = [] then (None, s, [])
                else if forceRefresh message \<and> \<not> isTrial env then
                  (if m_hasGUI s then
                     seqA [call env (MainView_confirm reindex_question [''Yes'', ''No'']),
                           (\<lambda>s. if confirmResult env = 1
                                     \<and> other_project (projectSettingsFilePath message) s
                                 then createAndLoadProject env (projectSettingsFilePath message) s
                                 else refreshProject env True s)] s
                   else refreshProject env True s)
                else if other_project (projectSettingsFilePath message) s
                  then createAndLoadProject env (projectSettingsFilePath message) s
                else (None, s, []))]"

definition handleMessage_Refresh :: "Collaborators \<Rightarrow> MessageRefresh \<Rightarrow> action" where
  "handleMessage_Refresh env message =
     seqA [(\<lambda>s. if reloadSettings message then loadSettings env s else (None, s, [])),
           (\<lambda>s. if uiOnly message
                then whenGUI (call env ComponentManager_refreshViews) s
                else refreshProject env (refresh_all message) s)]"

text \<open>
  Modelled from the spec: \<open>MessageRefresh\<close> is not among the sources. A fresh message
  refreshes the project incrementally and reloads the settings; \<open>refreshUiOnly\<close> and
  \<open>keepSettings\<close> set and clear the respective flags.
\<close>

definition MessageRefresh_new :: MessageRefresh where
  "MessageRefresh_new = MessageRefresh False False True"

definition refreshUiOnly :: "MessageRefresh \<Rightarrow> MessageRefresh" where
  "refreshUiOnly m = MessageRefresh True (refresh_all m) (reloadSettings m)"

definition keepSettings :: "MessageRefresh \<Rightarrow> MessageRefresh" where
  "keepSettings m = MessageRefresh (uiOnly m) (refresh_all m) False"

definition handleMessage_SwitchColorScheme ::
  "Collaborators \<Rightarrow> MessageSwitchColorScheme \<Rightarrow> action" where
  "handleMessage_SwitchColorScheme env message =
     seqA [loadStyle env (colorSchemePath message),
           dispatch (Refresh (keepSettings (refreshUiOnly MessageRefresh_new)))]"

subsection \<open>Start-up and shutdown\<close>

definition startMessagingAndScheduling :: "Collaborators \<Rightarrow> action" where
  "startMessagingAndScheduling env =
     seqA [call env TaskScheduler_startSchedulerLoopThreaded,
           call env (MessageQueue_setSendMessagesAsTasks True),
           call env MessageQueue_startMessageLoopThreaded]"

text \<open>The destructor \<open>Application::~Application\<close>.\<close>

definition destroy_Application :: "Collaborators \<Rightarrow> action" where
  "destroy_Application env =
     seqA [call env MessageQueue_stopMessageLoop,
           call env TaskScheduler_stopSchedulerLoop,
           whenGUI (call env MainView_saveLayout)]"

subsection \<open>Observations on runs\<close>

text \<open>The status messages among the events of a run, and those flagged as errors.\<close>

fun statusesDispatched :: "event list \<Rightarrow> MessageStatus list" where
  "statusesDispatched [] = []"
| "statusesDispatched (Dispatch (Status m) # es) = m # statusesDispatched es"
| "statusesDispatched (e # es) = statusesDispatched es"

definition errorStatuses :: "event list \<Rightarrow> MessageStatus list" where
  "errorStatuses es = filter isError (statusesDispatched es)"

definition recentProjectsOf :: "Application \<Rightarrow> FilePath list" where
  "recentProjectsOf s = getRecentProjects (appSettings s)"

text \<open>Kinds of events: any collaborator call, and the calls of the \<open>try\<close> block of
  \<open>createAndLoadProject\<close>.\<close>

fun isCall :: "event \<Rightarrow> bool" where
  "isCall (Call c) = True"
| "isCall e = False"

fun isLoadCall :: "call \<Rightarrow> bool" where
  "isLoadCall (ApplicationSettings_setRecentProjects recent) = True"
| "isLoadCall ApplicationSettings_save = True"
| "isLoadCall MainView_updateRecentProjectMenu = True"
| "isLoadCall StorageCache_clear = True"
| "isLoadCall (Project_create p) = True"
| "isLoadCall ComponentManager_clearComponents = True"
| "isLoadCall (MainView_setTitle title) = True"
| "isLoadCall MainView_hideStartScreen = True"
| "isLoadCall ComponentManager_refreshViews = True"
| "isLoadCall c = False"

text \<open>The calls of that block that come after \<open>Project::create\<close> has returned.\<close>

fun afterCreate :: "call \<Rightarrow> bool" where
  "afterCreate ComponentManager_clearComponents = True"
| "afterCreate (MainView_setTitle title) = True"
| "afterCreate MainView_hideStartScreen = True"
| "afterCreate ComponentManager_refreshViews = True"
| "afterCreate c = False"

text \<open>The creation of a project; the setting of the recent-projects list.\<close>

fun isProjectCreate :: "event \<Rightarrow> bool" where
  "isProjectCreate (Call (Project_create p)) = True"
| "isProjectCreate e = False"

fun isRecentProjectsUpdate :: "event \<Rightarrow> bool" where
  "isRecentProjectsUpdate (Call (ApplicationSettings_setRecentProjects recent)) = True"
| "isRecentProjectsUpdate e = False"

text \<open>The confirmation dialog and the two refreshes of a project.\<close>

fun asksOrRefreshes :: "event \<Rightarrow> bool" where
  "asksOrRefreshes (Call (MainView_confirm question options)) = True"
| "asksOrRefreshes (Call Project_forceRefresh) = True"
| "asksOrRefreshes (Call Project_refresh) = True"
| "asksOrRefreshes e = False"

text \<open>Any call to the settings store; the calls of \<open>loadSettings\<close>.\<close>

fun touchesSettings :: "event \<Rightarrow> bool" where
  "touchesSettings (Call ApplicationSettings_load) = True"
| "touchesSettings (Call (ApplicationSettings_setRecentProjects recent)) = True"
| "touchesSettings (Call ApplicationSettings_save) = True"
| "touchesSettings e = False"

fun isSettingsOrStyleLoad :: "event \<Rightarrow> bool" where
  "isSettingsOrStyleLoad (Call ApplicationSettings_load) = True"
| "isSettingsOrStyleLoad (Call (ColorScheme_load p)) = True"
| "isSettingsOrStyleLoad (Call GraphViewStyle_loadStyleSettings) = True"
| "isSettingsOrStyleLoad e = False"

text \<open>The two background loops, and the events that start and stop them.\<close>

datatype loop = SchedulerLoop | MessageLoop

fun started :: "event \<Rightarrow> loop option" where
  "started (Call TaskScheduler_startSchedulerLoopThreaded) = Some SchedulerLoop"
| "started (Call MessageQueue_startMessageLoopThreaded) = Some MessageLoop"
| "started e = None"

fun stopped :: "event \<Rightarrow> loop option" where
  "stopped (Call TaskScheduler_stopSchedulerLoop) = Some SchedulerLoop"
| "stopped (Call MessageQueue_stopMessageLoop) = Some MessageLoop"
| "stopped e = None"

text \<open>Every event of an action satisfies \<open>P\<close>; an action leaves the observation \<open>f\<close> alone.\<close>

definition emits :: "(event \<Rightarrow> bool) \<Rightarrow> action \<Rightarrow> bool" where
  "emits P a = (\<forall>s. list_all P (emitted (a s)))"

definition keeps :: "(Application \<Rightarrow> 'a) \<Rightarrow> action \<Rightarrow> bool" where
  "keeps f a = (\<forall>s. f (after (a s)) = f s)"

subsection \<open>Concrete collaborators and states\<close>

text \<open>
  Collaborators that never throw, outside trial mode, with a user who answers Yes
  (index 0); the same with a user who answers No (index 1), in trial mode, and with a
  component manager whose \<open>refreshViews\<close> throws.
\<close>

definition no_faults :: Collaborators where
  "no_faults = \<lparr>throws = (\<lambda>c. False), isTrial = False, confirmResult = 0,
     fileName = (\<lambda>p. p)\<rparr>"

definition user_declines :: Collaborators where
  "user_declines = no_faults\<lparr>confirmResult := 1\<rparr>"

definition trial_version :: Collaborators where
  "trial_version = no_faults\<lparr>isTrial := True\<rparr>"

definition refreshViews_throws :: Collaborators where
  "refreshViews_throws = no_faults\<lparr>throws := (\<lambda>c. c = ComponentManager_refreshViews)\<rparr>"

text \<open>Collaborators whose \<open>Project::create\<close> throws for the settings file A.\<close>

definition create_throws :: Collaborators where
  "create_throws = no_faults\<lparr>throws := (\<lambda>c. c = Project_create ''A'')\<rparr>"

text \<open>The orchestrator right after start-up, without a project and with empty settings.\<close>

definition started_with_GUI :: Application where
  "started_with_GUI = \<lparr>m_hasGUI = True, m_project = None,
     appSettings = \<lparr>getRecentProjects = [], getColorSchemePath = ''scheme.xml''\<rparr>,
     settingsFile = \<lparr>getRecentProjects = [], getColorSchemePath = ''scheme.xml''\<rparr>\<rparr>"

definition started_without_GUI :: Application where
  "started_without_GUI = started_with_GUI\<lparr>m_hasGUI := False\<rparr>"

definition with_recentProjects :: "FilePath list \<Rightarrow> Application \<Rightarrow> Application" where
  "with_recentProjects recent s =
     s\<lparr>appSettings := (appSettings s)\<lparr>getRecentProjects := recent\<rparr>,
       settingsFile := (settingsFile s)\<lparr>getRecentProjects := recent\<rparr>\<rparr>"

definition with_project :: "FilePath \<Rightarrow> Application \<Rightarrow> Application" where
  "with_project p s = s\<lparr>m_project := Some (Project p)\<rparr>"

definition with_GUI_and_project_A :: Application where
  "with_GUI_and_project_A = with_project ''A'' started_with_GUI"

definition without_GUI_and_project_A :: Application where
  "without_GUI_and_project_A = with_project ''A'' started_without_GUI"

text \<open>The state after a LoadProject for A during which \<open>refreshViews\<close> threw.\<close>

definition after_failed_load_of_A :: Application where
  "after_failed_load_of_A =
     after (handleMessage_LoadProject refreshViews_throws (MessageLoadProject ''A'' False)
       started_with_GUI)"


section \<open>Auxiliary facts\<close>

subsection \<open>The list operations of \<open>updateRecentProjects\<close>\<close>

lemma find_erase_remove1: "find_erase p xs = remove1 p xs"
  by (induction xs) auto

lemma pop_back_while_over_7_take: "pop_back_while_over_7 xs = take 7 xs"
proof (induction xs rule: pop_back_while_over_7.induct)
  case (1 xs)
  show ?case
  proof (cases "length xs > 7")
    case True
    then have "pop_back_while_over_7 xs = take 7 (butlast xs)"
      using 1 by (simp add: pop_back_while_over_7.simps [of xs])
    also have "\<dots> = take 7 xs"
      using True by (simp add: take_butlast)
    finally show ?thesis .
  next
    case False
    then show ?thesis by (simp add: pop_back_while_over_7.simps [of xs])
  qed
qed

lemma recentProjects_updated_eq:
  "recentProjects_updated p xs = take 7 (p # remove1 p xs)"
  by (simp add: recentProjects_updated_def Let_def find_erase_remove1
      pop_back_while_over_7_take)

lemma recentProjects_fold:
  "distinct ps \<Longrightarrow>
   foldl (\<lambda>xs q. recentProjects_updated q xs) [] ps = take 7 (rev ps)"
proof (induction ps rule: rev_induct)
  case Nil
  then show ?case by simp
next
  case (snoc q ps)
  then have q: "q \<notin> set (take 7 (rev ps))"
    by (auto dest: in_set_takeD)
  from snoc have "foldl (\<lambda>xs q. recentProjects_updated q xs) [] (ps @ [q]) =
      take 7 (q # remove1 q (take 7 (rev ps)))"
    by (simp add: recentProjects_updated_eq)
  also have "\<dots> = take 7 (q # take 7 (rev ps))"
    using q by (simp add: remove1_idem)
  also have "\<dots> = take 7 (rev (ps @ [q]))"
    by (simp add: take_Cons' min_def)
  finally show ?case .
qed

subsection \<open>Events and frames of composed actions\<close>

lemmas action_defs = raised_def after_def emitted_def call_def dispatch_def
  LOG_ERROR_STREAM_def assign_def whenGUI_def tryCatchAll_def

lemma emits_seqA: "list_all (emits P) as \<Longrightarrow> emits P (seqA as)"
proof (induction as)
  case Nil
  show ?case by (simp add: emits_def emitted_def)
next
  case (Cons a as)
  then have a: "\<And>s. list_all P (emitted (a s))"
    and as: "\<And>s. list_all P (emitted (seqA as s))"
    by (simp_all add: emits_def)
  show ?case
    unfolding emits_def
  proof
    fix s
    show "list_all P (emitted (seqA (a # as) s))"
      using a [of s] as [of "fst (snd (a s))"]
      by (cases "a s"; cases "seqA as (fst (snd (a s)))")
        (auto simp: emitted_def split: option.splits)
  qed
qed

lemma keeps_seqA: "list_all (keeps f) as \<Longrightarrow> keeps f (seqA as)"
proof (induction as)
  case Nil
  show ?case by (simp add: keeps_def after_def)
next
  case (Cons a as)
  then have a: "\<And>s. f (after (a s)) = f s"
    and as: "\<And>s. f (after (seqA as s)) = f s"
    by (simp_all add: keeps_def)
  show ?case
    unfolding keeps_def
  proof
    fix s
    show "f (after (seqA (a # as) s)) = f s"
      using a [of s] as [of "fst (snd (a s))"]
      by (cases "a s"; cases "seqA as (fst (snd (a s)))")
        (auto simp: after_def split: option.splits)
  qed
qed

lemma emits_call: "P (Call c) \<Longrightarrow> emits P (call env c)"
  by (simp add: emits_def action_defs)

lemma keeps_call: "keeps f (call env c)"
  by (simp add: keeps_def action_defs)

lemma emits_dispatch: "P (Dispatch m) \<Longrightarrow> emits P (dispatch m)"
  by (simp add: emits_def action_defs)

lemma keeps_dispatch: "keeps f (dispatch m)"
  by (simp add: keeps_def action_defs)

lemma emits_LOG_ERROR_STREAM: "P (LogError m) \<Longrightarrow> emits P (LOG_ERROR_STREAM m)"
  by (simp add: emits_def action_defs)

lemma keeps_LOG_ERROR_STREAM: "keeps f (LOG_ERROR_STREAM m)"
  by (simp add: keeps_def action_defs)

lemma emits_assign: "emits P (assign g)"
  by (simp add: emits_def action_defs)

lemma keeps_assign: "(\<And>s. f (g s) = f s) \<Longrightarrow> keeps f (assign g)"
  by (simp add: keeps_def action_defs)

lemma emits_skip: "emits P (\<lambda>s. (None, s, []))"
  by (simp add: emits_def action_defs)

lemma keeps_skip: "keeps f (\<lambda>s. (None, s, []))"
  by (simp add: keeps_def action_defs)

lemma emits_if:
  "emits P a \<Longrightarrow> emits P b \<Longrightarrow> emits P (\<lambda>s. if c s then a s else b s)"
  by (simp add: emits_def)

lemma keeps_if:
  "keeps f a \<Longrightarrow> keeps f b \<Longrightarrow> keeps f (\<lambda>s. if c s then a s else b s)"
  by (simp add: keeps_def)

lemma emits_whenGUI: "emits P a \<Longrightarrow> emits P (whenGUI a)"
  by (simp add: emits_def whenGUI_def emitted_def)

lemma keeps_whenGUI: "keeps f a \<Longrightarrow> keeps f (whenGUI a)"
  by (simp add: keeps_def whenGUI_def after_def)

lemma emits_tryCatchAll:
  assumes "emits P body" and "emits P handler"
  shows "emits P (tryCatchAll body handler)"
  unfolding emits_def
proof
  fix s
  obtain r s' es where b: "body s = (r, s', es)"
    by (cases "body s") auto
  obtain r' s'' es' where h: "handler s' = (r', s'', es')"
    by (cases "handler s'") auto
  have "list_all P es" "list_all P es'"
    using assms b h by (auto simp: emits_def emitted_def dest: spec [of _ s] spec [of _ s'])
  then show "list_all P (emitted (tryCatchAll body handler s))"
    using b h by (auto simp: tryCatchAll_def emitted_def split: option.splits fault.splits)
qed

lemma keeps_tryCatchAll:
  assumes "keeps f body" and "keeps f handler"
  shows "keeps f (tryCatchAll body handler)"
  unfolding keeps_def
proof
  fix s
  obtain r s' es where b: "body s = (r, s', es)"
    by (cases "body s") auto
  obtain r' s'' es' where h: "handler s' = (r', s'', es')"
    by (cases "handler s'") auto
  have "f s' = f s" "f s'' = f s'"
    using assms b h by (auto simp: keeps_def after_def dest: spec [of _ s] spec [of _ s'])
  then show "f (after (tryCatchAll body handler s)) = f s"
    using b h by (auto simp: tryCatchAll_def after_def split: option.splits fault.splits)
qed

lemmas emits_intros = emits_seqA emits_call emits_dispatch emits_LOG_ERROR_STREAM
  emits_assign emits_skip emits_if emits_whenGUI emits_tryCatchAll

lemmas keeps_intros = keeps_seqA keeps_call keeps_dispatch keeps_LOG_ERROR_STREAM
  keeps_assign keeps_skip keeps_if keeps_whenGUI keeps_tryCatchAll

subsection \<open>Settings, recent projects and project load\<close>

lemma emits_loadStyle:
  "P (Call (ColorScheme_load p)) \<Longrightarrow> P (Call GraphViewStyle_loadStyleSettings) \<Longrightarrow>
   emits P (loadStyle env p)"
  by (simp add: loadStyle_def emits_intros)

lemma emits_loadSettings:
  assumes "P (Call ApplicationSettings_load)" and "\<And>p. P (Call (ColorScheme_load p))"
    and "P (Call GraphViewStyle_loadStyleSettings)"
  shows "emits P (loadSettings env)"
proof -
  have "emits P (\<lambda>s. loadStyle env (getColorSchemePath (appSettings s)) s)"
    using emits_loadStyle [of P _ env] assms by (simp add: emits_def)
  then show ?thesis
    using assms by (simp add: loadSettings_def ApplicationSettings_load_m_def emits_intros)
qed

lemma keeps_loadSettings:
  assumes "\<And>s. f (s\<lparr>appSettings := settingsFile s\<rparr>) = f s"
  shows "keeps f (loadSettings env)"
proof -
  have "keeps f (\<lambda>s. loadStyle env (getColorSchemePath (appSettings s)) s)"
    by (simp add: keeps_def loadStyle_def action_defs)
  then show ?thesis
    using assms by (simp add: loadSettings_def ApplicationSettings_load_m_def keeps_intros)
qed

lemma statusesDispatched_append:
  "statusesDispatched (es @ es') = statusesDispatched es @ statusesDispatched es'"
  by (induction es rule: statusesDispatched.induct) auto

lemma statusesDispatched_calls: "list_all isCall es \<Longrightarrow> statusesDispatched es = []"
  by (induction es rule: statusesDispatched.induct) auto

lemmas store_defs = ApplicationSettings_load_m_def ApplicationSettings_setRecentProjects_m_def
  ApplicationSettings_save_m_def

lemma emits_updateRecentProjects:
  assumes "\<And>c. isLoadCall c \<Longrightarrow> P (Call c)"
  shows "emits P (updateRecentProjects env p)"
proof -
  have "emits P (\<lambda>s.
       seqA [ApplicationSettings_setRecentProjects_m env
               (recentProjects_updated p (getRecentProjects (appSettings s))),
             ApplicationSettings_save_m env,
             call env MainView_updateRecentProjectMenu] s)"
    unfolding emits_def
  proof
    fix s :: Application
    have "emits P (seqA [ApplicationSettings_setRecentProjects_m env
               (recentProjects_updated p (getRecentProjects (appSettings s))),
             ApplicationSettings_save_m env,
             call env MainView_updateRecentProjectMenu])"
      using assms by (simp add: store_defs emits_intros)
    then show "list_all P (emitted (seqA [ApplicationSettings_setRecentProjects_m env
               (recentProjects_updated p (getRecentProjects (appSettings s))),
             ApplicationSettings_save_m env,
             call env MainView_updateRecentProjectMenu] s))"
      by (simp add: emits_def)
  qed
  then show ?thesis
    by (simp add: updateRecentProjects_def emits_intros)
qed

lemma emits_createAndLoadProject_try:
  assumes "\<And>c. isLoadCall c \<Longrightarrow> P (Call c)"
  shows "emits P (createAndLoadProject_try env p)"
  using assms
  by (simp add: createAndLoadProject_try_def loadProject_def emits_intros
      emits_updateRecentProjects)

lemma emits_createAndLoadProject:
  assumes "\<And>c. isLoadCall c \<Longrightarrow> P (Call c)" and "\<And>m. P (Dispatch (Status m))"
    and "\<And>t. P (LogError t)"
  shows "emits P (createAndLoadProject env p)"
  using assms
  by (simp add: createAndLoadProject_def createAndLoadProject_catch_def emits_intros
      emits_createAndLoadProject_try)

lemma createAndLoadProject_try_raised:
  "raised (createAndLoadProject_try env p s) \<noteq> Some NullPointer"
  by (simp add: createAndLoadProject_try_def updateRecentProjects_def loadProject_def
      store_defs action_defs)

lemma updateRecentProjects_returns:
  assumes "m_hasGUI s" and "raised (updateRecentProjects env p s) = None"
  shows "updateRecentProjects env p s =
     (None,
      s\<lparr>appSettings := (appSettings s)\<lparr>getRecentProjects :=
           recentProjects_updated p (getRecentProjects (appSettings s))\<rparr>,
        settingsFile := (appSettings s)\<lparr>getRecentProjects :=
           recentProjects_updated p (getRecentProjects (appSettings s))\<rparr>\<rparr>,
      [Call (ApplicationSettings_setRecentProjects
               (recentProjects_updated p (getRecentProjects (appSettings s)))),
       Call ApplicationSettings_save,
       Call MainView_updateRecentProjectMenu])"
  using assms
  by (simp add: updateRecentProjects_def store_defs action_defs split: if_splits)

lemma take7_front:
  fixes p :: FilePath
  defines "new \<equiv> \<lambda>old. take 7 (p # remove1 p old)"
  shows "new old \<noteq> []" and "hd (new old) = p" and "length (new old) \<le> 7"
    and "tl (new old) = take 6 (remove1 p old)"
    and "p \<in> set old \<Longrightarrow> length (new old) \<le> length old"
    and "distinct old \<Longrightarrow> distinct (new old)"
    and "distinct old \<Longrightarrow> tl (new old) = take 6 (filter (\<lambda>x. x \<noteq> p) old)"
proof -
  show "new old \<noteq> []" "hd (new old) = p" "length (new old) \<le> 7"
    "tl (new old) = take 6 (remove1 p old)"
    by (simp_all add: new_def take_Cons')
  show "p \<in> set old \<Longrightarrow> length (new old) \<le> length old"
    by (simp add: new_def take_Cons' length_remove1) (cases old; simp)
  show "distinct old \<Longrightarrow> distinct (new old)"
    unfolding new_def by (rule distinct_take) simp
  show "distinct old \<Longrightarrow> tl (new old) = take 6 (filter (\<lambda>x. x \<noteq> p) old)"
    by (simp add: new_def take_Cons' distinct_remove1_removeAll removeAll_filter_not_eq)
      (metis (mono_tags, lifting) filter_cong)
qed

lemma createAndLoadProject_by_try:
  "createAndLoadProject env p s =
     (case createAndLoadProject_try env p s of
        (None, s', es) \<Rightarrow>
          (None, s', Dispatch (Status (MessageStatus (''Loading Project: '' @ p) False True)) # es)
      | (Some (Exception c), s', es) \<Rightarrow>
          (None, s', Dispatch (Status (MessageStatus (''Loading Project: '' @ p) False True)) # es @
             [LogError ''Failed to load project.'',
              Dispatch (Status (MessageStatus ''Failed to load project.'' True False))])
      | (Some NullPointer, s', es) \<Rightarrow>
          (Some NullPointer, s',
           Dispatch (Status (MessageStatus (''Loading Project: '' @ p) False True)) # es))"
  by (simp add: createAndLoadProject_def createAndLoadProject_catch_def action_defs
      split: prod.splits option.splits fault.splits)

lemma createAndLoadProject_try_calls:
  "list_all isCall (emitted (createAndLoadProject_try env p s))"
  using emits_createAndLoadProject_try [of isCall env p] by (simp add: emits_def)

lemma createAndLoadProject_try_project:
  "m_project (after (createAndLoadProject_try env p s)) = m_project s \<or>
   m_project (after (createAndLoadProject_try env p s)) = Some (Project p)"
  by (simp add: createAndLoadProject_try_def updateRecentProjects_def loadProject_def
      store_defs action_defs)

lemma createAndLoadProject_try_project_by_fault:
  "m_project (after (createAndLoadProject_try env p s)) =
     (case raised (createAndLoadProject_try env p s) of
        None \<Rightarrow> Some (Project p)
      | Some (Exception c) \<Rightarrow> if afterCreate c then Some (Project p) else m_project s
      | Some NullPointer \<Rightarrow> m_project s)"
  by (simp add: createAndLoadProject_try_def updateRecentProjects_def loadProject_def
      store_defs action_defs)

lemma createAndLoadProject_try_project_by_events:
  "m_project (after (createAndLoadProject_try env p s)) =
     (if Call (Project_create p) \<in> set (emitted (createAndLoadProject_try env p s))
         \<and> \<not> throws env (Project_create p)
      then Some (Project p) else m_project s)"
  by (simp add: createAndLoadProject_try_def updateRecentProjects_def loadProject_def
      store_defs action_defs)

lemma createAndLoadProject_try_create_once:
  "Call (Project_create p) \<in> set (emitted (createAndLoadProject env p s)) \<longleftrightarrow>
   Call (Project_create p) \<in> set (emitted (createAndLoadProject_try env p s))"
  by (auto simp: createAndLoadProject_by_try emitted_def
      split: prod.splits option.splits fault.splits)

lemma createAndLoadProject_try_returns:
  assumes "raised (createAndLoadProject_try env p s) = None"
  shows "createAndLoadProject_try env p s =
    (if m_hasGUI s then
       (None,
        s\<lparr>m_project := Some (Project p),
          appSettings := (appSettings s)\<lparr>getRecentProjects :=
             recentProjects_updated p (getRecentProjects (appSettings s))\<rparr>,
          settingsFile := (appSettings s)\<lparr>getRecentProjects :=
             recentProjects_updated p (getRecentProjects (appSettings s))\<rparr>\<rparr>,
        [Call (ApplicationSettings_setRecentProjects
                 (recentProjects_updated p (getRecentProjects (appSettings s)))),
         Call ApplicationSettings_save,
         Call MainView_updateRecentProjectMenu,
         Call StorageCache_clear,
         Call (Project_create p),
         Call ComponentManager_clearComponents,
         Call (MainView_setTitle (''Coati - '' @ fileName env p)),
         Call MainView_hideStartScreen,
         Call ComponentManager_refreshViews])
     else
       (None, s\<lparr>m_project := Some (Project p)\<rparr>,
        [Call StorageCache_clear, Call (Project_create p)]))"
  using assms
  by (simp add: createAndLoadProject_try_def updateRecentProjects_def loadProject_def
      store_defs action_defs split: if_splits)

subsection \<open>The handlers\<close>

lemma seqA_two:
  "seqA [a, b] s =
     (case a s of
        (Some f, s', es) \<Rightarrow> (Some f, s', es)
      | (None, s', es) \<Rightarrow> (case b s' of (r, s'', es') \<Rightarrow> (r, s'', es @ es')))"
  by (simp split: prod.splits option.splits)

lemma loadSettings_frame:
  "m_project (after (loadSettings env s)) = m_project s"
  "m_hasGUI (after (loadSettings env s)) = m_hasGUI s"
  "settingsFile (after (loadSettings env s)) = settingsFile s"
  using keeps_loadSettings [of m_project env] keeps_loadSettings [of m_hasGUI env]
    keeps_loadSettings [of settingsFile env]
  by (simp_all add: keeps_def)

lemma loadSettings_appSettings:
  "appSettings (after (loadSettings env s)) = appSettings s \<or>
   appSettings (after (loadSettings env s)) = settingsFile s"
  by (simp add: loadSettings_def loadStyle_def store_defs action_defs)

lemma loadSettings_events:
  "list_all isSettingsOrStyleLoad (emitted (loadSettings env s))"
  using emits_loadSettings [of isSettingsOrStyleLoad env] by (simp add: emits_def)

lemma loadSettings_returns:
  assumes "throws env = (\<lambda>c. False)"
  shows "loadSettings env s =
    (None, s\<lparr>appSettings := settingsFile s\<rparr>,
     [Call ApplicationSettings_load,
      Call (ColorScheme_load (getColorSchemePath (settingsFile s))),
      Call GraphViewStyle_loadStyleSettings])"
  using assms by (simp add: loadSettings_def loadStyle_def store_defs action_defs)

lemma other_project_loadSettings:
  "other_project p (after (loadSettings env s)) = other_project p s"
  by (simp add: other_project_def loadSettings_frame)

lemma handleMessage_LoadProject_not_forced:
  assumes "\<not> forceRefresh message \<or> isTrial env"
  shows "handleMessage_LoadProject env message s =
    seqA [loadSettings env,
          (\<lambda>s. if projectSettingsFilePath message = [] then (None, s, [])
               else if other_project (projectSettingsFilePath message) s
               then createAndLoadProject env (projectSettingsFilePath message) s
               else (None, s, []))] s"
  using assms unfolding handleMessage_LoadProject_def
  by (cases "forceRefresh message") (simp_all del: seqA.simps cong: if_cong)

lemma handleMessage_LoadProject_nothing_to_load:
  assumes "\<not> forceRefresh message \<or> isTrial env"
    and "projectSettingsFilePath message = []
         \<or> \<not> other_project (projectSettingsFilePath message) s"
  shows "handleMessage_LoadProject env message s = loadSettings env s"
proof -
  obtain r s' es where l: "loadSettings env s = (r, s', es)"
    by (cases "loadSettings env s") auto
  have "other_project (projectSettingsFilePath message) s' =
      other_project (projectSettingsFilePath message) s"
    using other_project_loadSettings [of "projectSettingsFilePath message" env s]
    by (simp add: l after_def)
  then show ?thesis
    using assms(2)
    unfolding handleMessage_LoadProject_not_forced [OF assms(1)] seqA_two l
    by (cases r) auto
qed

lemma createAndLoadProject_try_no_faults:
  "throws env = (\<lambda>c. False) \<Longrightarrow> raised (createAndLoadProject_try env p s) = None"
  by (simp add: createAndLoadProject_try_def updateRecentProjects_def loadProject_def
      store_defs action_defs)

lemma handleMessage_LoadProject_empty:
  assumes "projectSettingsFilePath message = []"
  shows "handleMessage_LoadProject env message s = loadSettings env s"
proof -
  obtain r s' es where l: "loadSettings env s = (r, s', es)"
    by (cases "loadSettings env s") auto
  show ?thesis
    using assms unfolding handleMessage_LoadProject_def seqA_two l
    by (cases r) auto
qed

lemma handleMessage_LoadProject_loads:
  assumes "throws env = (\<lambda>c. False)" and "p \<noteq> []" and "other_project p s"
    and "\<not> force \<or> isTrial env"
  shows "handleMessage_LoadProject env (MessageLoadProject p force) s =
    (case createAndLoadProject env p (s\<lparr>appSettings := settingsFile s\<rparr>) of
       (r, s', es) \<Rightarrow>
         (r, s',
          [Call ApplicationSettings_load,
           Call (ColorScheme_load (getColorSchemePath (settingsFile s))),
           Call GraphViewStyle_loadStyleSettings] @ es))"
proof -
  have o: "other_project p (s\<lparr>appSettings := settingsFile s\<rparr>)"
    using assms(3) by (simp add: other_project_def)
  have n: "\<not> forceRefresh (MessageLoadProject p force) \<or> isTrial env"
    using assms(4) by simp
  show ?thesis
    unfolding handleMessage_LoadProject_not_forced [OF n] seqA_two
      loadSettings_returns [OF assms(1)]
    using assms(2) o by simp
qed

lemma createAndLoadProject_returns:
  assumes "throws env = (\<lambda>c. False)"
  shows "raised (createAndLoadProject env p s) = None"
    and "m_project (after (createAndLoadProject env p s)) = Some (Project p)"
    and "filter isProjectCreate (emitted (createAndLoadProject env p s)) =
           [Call (Project_create p)]"
    and "length (filter isRecentProjectsUpdate (emitted (createAndLoadProject env p s))) =
           (if m_hasGUI s then 1 else 0)"
  unfolding createAndLoadProject_by_try
    createAndLoadProject_try_returns [OF createAndLoadProject_try_no_faults [OF assms]]
  by (simp_all add: raised_def after_def emitted_def)

lemma loadSettings_quiet:
  "\<not> list_ex isProjectCreate (emitted (loadSettings env s))"
  "\<not> list_ex isRecentProjectsUpdate (emitted (loadSettings env s))"
  "\<not> list_ex asksOrRefreshes (emitted (loadSettings env s))"
  "statusesDispatched (emitted (loadSettings env s)) = []"
  by (simp_all add: loadSettings_def loadStyle_def store_defs action_defs emitted_def)

lemma handleMessage_LoadProject_A_started:
  "handleMessage_LoadProject no_faults (MessageLoadProject ''A'' False) started_with_GUI =
     (None,
      \<lparr>m_hasGUI = True, m_project = Some (Project ''A''),
        appSettings = \<lparr>getRecentProjects = [''A''], getColorSchemePath = ''scheme.xml''\<rparr>,
        settingsFile = \<lparr>getRecentProjects = [''A''], getColorSchemePath = ''scheme.xml''\<rparr>\<rparr>,
      [Call ApplicationSettings_load, Call (ColorScheme_load ''scheme.xml''),
       Call GraphViewStyle_loadStyleSettings,
       Dispatch (Status (MessageStatus ''Loading Project: A'' False True)),
       Call (ApplicationSettings_setRecentProjects [''A'']),
       Call ApplicationSettings_save,
       Call MainView_updateRecentProjectMenu,
       Call StorageCache_clear,
       Call (Project_create ''A''),
       Call ComponentManager_clearComponents,
       Call (MainView_setTitle ''Coati - A''),
       Call MainView_hideStartScreen,
       Call ComponentManager_refreshViews])"
  by (simp add: handleMessage_LoadProject_def loadSettings_def loadStyle_def
      createAndLoadProject_by_try createAndLoadProject_try_def updateRecentProjects_def
      loadProject_def store_defs action_defs other_project_def recentProjects_updated_eq
      no_faults_def started_with_GUI_def)

lemma createAndLoadProject_quiet:
  "\<not> list_ex asksOrRefreshes (emitted (createAndLoadProject env p s))"
proof -
  have "\<And>c. isLoadCall c \<Longrightarrow> \<not> asksOrRefreshes (Call c)"
    by (case_tac c) simp_all
  then have "emits (\<lambda>e. \<not> asksOrRefreshes e) (createAndLoadProject env p)"
    by (intro emits_createAndLoadProject) simp_all
  then show ?thesis
    by (simp add: emits_def list_all_iff list_ex_iff)
qed

lemma handleMessage_LoadProject_not_forced_quiet:
  assumes "\<not> forceRefresh message \<or> isTrial env"
  shows "\<not> list_ex asksOrRefreshes (emitted (handleMessage_LoadProject env message s))"
proof -
  have "emits (\<lambda>e. \<not> asksOrRefreshes e) (loadSettings env)"
    by (intro emits_loadSettings) simp_all
  moreover have "emits (\<lambda>e. \<not> asksOrRefreshes e)
      (createAndLoadProject env (projectSettingsFilePath message))"
    using createAndLoadProject_quiet [of env "projectSettingsFilePath message"]
    by (simp add: emits_def list_all_iff list_ex_iff)
  ultimately have "emits (\<lambda>e. \<not> asksOrRefreshes e)
     (seqA [loadSettings env,
          (\<lambda>s. if projectSettingsFilePath message = [] then (None, s, [])
               else if other_project (projectSettingsFilePath message) s
               then createAndLoadProject env (projectSettingsFilePath message) s
               else (None, s, []))])"
    by (simp add: emits_intros)
  then show ?thesis
    unfolding handleMessage_LoadProject_not_forced [OF assms]
    by (simp add: emits_def list_all_iff list_ex_iff)
qed

lemma loadSettings_after:
  "after (loadSettings env s) = s \<or>
   after (loadSettings env s) = s\<lparr>appSettings := settingsFile s\<rparr>"
  by (simp add: loadSettings_def loadStyle_def store_defs action_defs)

lemma refreshProject_returns:
  assumes "throws env = (\<lambda>c. False)" and "m_project s \<noteq> None"
  shows "refreshProject env force s =
    (None, s,
     [Dispatch (Status (MessageStatus ''Refreshing Project'' False False)),
      Call StorageCache_clear] @
     (if m_hasGUI s then [Call ComponentManager_refreshViews] else []) @
     [Call (if force then Project_forceRefresh else Project_refresh)])"
  using assms by (auto simp: refreshProject_def action_defs)

lemma refreshProject_no_project:
  assumes "throws env = (\<lambda>c. False)" and "m_project s = None"
  shows "raised (refreshProject env force s) = Some NullPointer"
  using assms by (simp add: refreshProject_def action_defs)

lemma handleMessage_LoadProject_forced:
  assumes "throws env = (\<lambda>c. False)" and "p \<noteq> []" and "\<not> isTrial env"
  shows "handleMessage_LoadProject env (MessageLoadProject p True) s =
    (case
       (if m_hasGUI s then
          (if confirmResult env = 1 \<and> other_project p s
           then (case createAndLoadProject env p (s\<lparr>appSettings := settingsFile s\<rparr>) of
                   (r, s', es) \<Rightarrow>
                     (r, s', Call (MainView_confirm reindex_question [''Yes'', ''No'']) # es))
           else (case refreshProject env True (s\<lparr>appSettings := settingsFile s\<rparr>) of
                   (r, s', es) \<Rightarrow>
                     (r, s', Call (MainView_confirm reindex_question [''Yes'', ''No'']) # es)))
        else refreshProject env True (s\<lparr>appSettings := settingsFile s\<rparr>))
     of (r, s', es) \<Rightarrow>
       (r, s',
        [Call ApplicationSettings_load,
         Call (ColorScheme_load (getColorSchemePath (settingsFile s))),
         Call GraphViewStyle_loadStyleSettings] @ es))"
proof -
  have o: "other_project p (s\<lparr>appSettings := settingsFile s\<rparr>) = other_project p s"
    by (simp add: other_project_def)
  show ?thesis
    unfolding handleMessage_LoadProject_def seqA_two [of "loadSettings env"]
      loadSettings_returns [OF assms(1)]
    using assms by (auto simp: o call_def split: prod.splits option.splits)
qed

lemma handleMessage_LoadProject_declined_current_project:
  assumes "throws env = (\<lambda>c. False)" and "p \<noteq> []" and "\<not> isTrial env"
    and "m_hasGUI s" and "confirmResult env = 1" and "m_project s = Some (Project p)"
  shows "emitted (handleMessage_LoadProject env (MessageLoadProject p True) s) =
    [Call ApplicationSettings_load,
     Call (ColorScheme_load (getColorSchemePath (settingsFile s))),
     Call GraphViewStyle_loadStyleSettings,
     Call (MainView_confirm reindex_question [''Yes'', ''No'']),
     Dispatch (Status (MessageStatus ''Refreshing Project'' False False)),
     Call StorageCache_clear,
     Call ComponentManager_refreshViews,
     Call Project_forceRefresh]"
  using assms(4-6)
  by (simp add: handleMessage_LoadProject_forced [OF assms(1-3)]
      refreshProject_returns [OF assms(1)] other_project_def emitted_def)

lemma handleMessage_LoadProject_forced_without_project:
  assumes "throws env = (\<lambda>c. False)" and "p \<noteq> []" and "\<not> isTrial env"
    and "\<not> m_hasGUI s" and "m_project s = None"
  shows "raised (handleMessage_LoadProject env (MessageLoadProject p True) s) =
    Some NullPointer"
proof -
  have "raised (refreshProject env True (s\<lparr>appSettings := settingsFile s\<rparr>)) =
      Some NullPointer"
    using assms(5) by (simp add: refreshProject_no_project [OF assms(1)])
  then show ?thesis
    using assms(4)
    by (auto simp: handleMessage_LoadProject_forced [OF assms(1-3)] raised_def
        split: prod.splits)
qed

lemma updateRecentProjects_all:
  assumes "throws env = (\<lambda>c. False)" and "m_hasGUI s"
  shows "raised (seqA (map (updateRecentProjects env) ps) s) = None \<and>
    m_hasGUI (after (seqA (map (updateRecentProjects env) ps) s)) \<and>
    recentProjectsOf (after (seqA (map (updateRecentProjects env) ps) s)) =
      foldl (\<lambda>xs q. recentProjects_updated q xs) (recentProjectsOf s) ps"
  using assms(2)
proof (induction ps arbitrary: s)
  case Nil
  then show ?case by (simp add: raised_def after_def)
next
  case (Cons q ps)
  have r: "raised (updateRecentProjects env q s) = None"
    using assms(1) by (simp add: updateRecentProjects_def store_defs action_defs)
  note u = updateRecentProjects_returns [OF Cons.prems r]
  let ?s' = "after (updateRecentProjects env q s)"
  have gui: "m_hasGUI ?s'"
    using Cons.prems by (simp add: u after_def)
  have rec: "recentProjectsOf ?s' = recentProjects_updated q (recentProjectsOf s)"
    by (simp add: u after_def recentProjectsOf_def)
  have step: "seqA (map (updateRecentProjects env) (q # ps)) s =
      (case seqA (map (updateRecentProjects env) ps) ?s' of
         (r, s'', es') \<Rightarrow> (r, s'', emitted (updateRecentProjects env q s) @ es'))"
    by (simp add: u after_def emitted_def)
  show ?case
    unfolding step using Cons.IH [OF gui] rec
    by (cases "seqA (map (updateRecentProjects env) ps) ?s'")
      (simp add: raised_def after_def)
qed

section \<open>The recent-projects list\<close>

text \<open>
  Claim C1, as the code has it. With a GUI attached and no collaborator fault,
  \<open>updateRecentProjects\<close> puts the path at the front, erases the first earlier occurrence
  of it, keeps the other entries in their order and cuts the list to at most 7 entries,
  dropping from the back. Re-adding a path that is in the list does not lengthen it. A
  list without duplicates stays without duplicates, and then the path occurs at the front
  only. Adding distinct paths one after the other to the empty list leaves the last 7,
  newest first.
\<close>

theorem updateRecentProjects_front_capped:
  assumes "m_hasGUI s" and "throws env = (\<lambda>c. False)"
  shows "recentProjectsOf (after (updateRecentProjects env p s)) =
           take 7 (p # remove1 p (recentProjectsOf s))
    \<and> hd (recentProjectsOf (after (updateRecentProjects env p s))) = p
    \<and> tl (recentProjectsOf (after (updateRecentProjects env p s))) =
           take 6 (remove1 p (recentProjectsOf s))
    \<and> length (recentProjectsOf (after (updateRecentProjects env p s))) \<le> 7
    \<and> (p \<in> set (recentProjectsOf s) \<longrightarrow>
         length (recentProjectsOf (after (updateRecentProjects env p s)))
           \<le> length (recentProjectsOf s))
    \<and> (distinct (recentProjectsOf s) \<longrightarrow>
         distinct (recentProjectsOf (after (updateRecentProjects env p s)))
         \<and> tl (recentProjectsOf (after (updateRecentProjects env p s))) =
             take 6 (filter (\<lambda>x. x \<noteq> p) (recentProjectsOf s)))
    \<and> (distinct ps \<and> recentProjectsOf s = [] \<longrightarrow>
         recentProjectsOf (after (seqA (map (updateRecentProjects env) ps) s)) =
           take 7 (rev ps))"
proof -
  have r: "raised (updateRecentProjects env p s) = None"
    using assms(2) by (simp add: updateRecentProjects_def store_defs action_defs)
  have new: "recentProjectsOf (after (updateRecentProjects env p s)) =
      take 7 (p # remove1 p (recentProjectsOf s))"
    by (simp add: updateRecentProjects_returns [OF assms(1) r] after_def
        recentProjectsOf_def recentProjects_updated_eq)
  have many: "distinct ps \<and> recentProjectsOf s = [] \<longrightarrow>
      recentProjectsOf (after (seqA (map (updateRecentProjects env) ps) s)) = take 7 (rev ps)"
    using updateRecentProjects_all [OF assms(2) assms(1), of ps]
    by (simp add: recentProjects_fold)
  show ?thesis
    unfolding new using take7_front [where p = p and old = "recentProjectsOf s"] many by simp
qed

text \<open>Adding A to H in this order to the empty list leaves H, G, F, E, D, C, B.\<close>

theorem updateRecentProjects_eight_paths:
  "m_hasGUI started_with_GUI \<and> throws no_faults = (\<lambda>c. False) \<and>
   recentProjectsOf (after (seqA (map (updateRecentProjects no_faults)
       [''A'', ''B'', ''C'', ''D'', ''E'', ''F'', ''G'', ''H'']) started_with_GUI)) =
     [''H'', ''G'', ''F'', ''E'', ''D'', ''C'', ''B'']"
  using updateRecentProjects_front_capped [of started_with_GUI no_faults "''A''"
      "[''A'', ''B'', ''C'', ''D'', ''E'', ''F'', ''G'', ''H'']"]
  by (simp add: started_with_GUI_def no_faults_def recentProjectsOf_def)

text \<open>
  Claim C1 as stated fails: only the first earlier occurrence is erased, so a list that
  holds the path twice keeps a duplicate; and without a GUI the list is not touched.
\<close>

theorem updateRecentProjects_duplicates_or_no_GUI:
  "recentProjectsOf (after (updateRecentProjects no_faults ''p''
       (with_recentProjects [''p'', ''q'', ''p''] started_with_GUI))) = [''p'', ''q'', ''p'']
   \<and> recentProjectsOf (after (updateRecentProjects no_faults ''p'' started_without_GUI)) = []"
  by (simp add: updateRecentProjects_def store_defs action_defs recentProjectsOf_def
      with_recentProjects_def started_with_GUI_def started_without_GUI_def no_faults_def
      recentProjects_updated_eq)

section \<open>Loading a project\<close>

text \<open>
  Claim C3, as the code has it. When the \<open>try\<close> block of \<open>createAndLoadProject\<close> runs
  through, the project for the path is the current one and no error status is sent. With
  a GUI attached the path is then at the front of the recent-projects list (first earlier
  occurrence erased, at most 7 entries), the list is persisted and the main view is told
  to update its recent-projects menu. Without a GUI neither the settings in memory nor the
  persisted ones change, and the only events are the loading status, the clearing of the
  storage cache and the creation of the project.
\<close>

theorem createAndLoadProject_recentProjects_need_GUI:
  assumes "raised (createAndLoadProject_try env p s) = None"
  shows "raised (createAndLoadProject env p s) = None
    \<and> errorStatuses (emitted (createAndLoadProject env p s)) = []
    \<and> m_project (after (createAndLoadProject env p s)) = Some (Project p)
    \<and> (if m_hasGUI s
        then recentProjectsOf (after (createAndLoadProject env p s)) =
               take 7 (p # remove1 p (recentProjectsOf s))
           \<and> settingsFile (after (createAndLoadProject env p s)) =
               appSettings (after (createAndLoadProject env p s))
           \<and> Call MainView_updateRecentProjectMenu
               \<in> set (emitted (createAndLoadProject env p s))
        else appSettings (after (createAndLoadProject env p s)) = appSettings s
           \<and> settingsFile (after (createAndLoadProject env p s)) = settingsFile s
           \<and> emitted (createAndLoadProject env p s) =
               [Dispatch (Status (MessageStatus (''Loading Project: '' @ p) False True)),
                Call StorageCache_clear, Call (Project_create p)])"
  unfolding createAndLoadProject_by_try createAndLoadProject_try_returns [OF assms]
  by (simp add: raised_def after_def emitted_def errorStatuses_def recentProjectsOf_def
      recentProjects_updated_eq)

text \<open>Loading A with a GUI and the recent projects B, A leaves A, B, in memory and persisted.\<close>

theorem createAndLoadProject_with_GUI_example:
  "raised (createAndLoadProject_try no_faults ''A'' (with_recentProjects [''B'', ''A''] started_with_GUI)) = None
   \<and> recentProjectsOf (after (createAndLoadProject no_faults ''A''
         (with_recentProjects [''B'', ''A''] started_with_GUI))) = [''A'', ''B'']
   \<and> getRecentProjects (settingsFile (after (createAndLoadProject no_faults ''A''
         (with_recentProjects [''B'', ''A''] started_with_GUI)))) = [''A'', ''B'']"
proof -
  have h: "raised (createAndLoadProject_try no_faults ''A''
      (with_recentProjects [''B'', ''A''] started_with_GUI)) = None"
    by (simp add: createAndLoadProject_try_def updateRecentProjects_def loadProject_def
        store_defs action_defs no_faults_def started_with_GUI_def with_recentProjects_def)
  show ?thesis
    using h createAndLoadProject_recentProjects_need_GUI [OF h]
    by (simp add: with_recentProjects_def started_with_GUI_def recentProjectsOf_def)
qed

text \<open>
  Claim C3 as stated fails: a load without a GUI succeeds and leaves the recent-projects
  list empty, in memory and persisted.
\<close>

theorem createAndLoadProject_without_GUI_no_update:
  "raised (createAndLoadProject_try no_faults ''A'' started_without_GUI) = None
   \<and> m_project (after (createAndLoadProject no_faults ''A'' started_without_GUI)) =
       Some (Project ''A'')
   \<and> recentProjectsOf (after (createAndLoadProject no_faults ''A'' started_without_GUI)) = []
   \<and> getRecentProjects (settingsFile
       (after (createAndLoadProject no_faults ''A'' started_without_GUI))) = []"
  by (simp add: createAndLoadProject_by_try createAndLoadProject_try_def
      updateRecentProjects_def loadProject_def store_defs action_defs no_faults_def
      started_with_GUI_def started_without_GUI_def recentProjectsOf_def)

text \<open>
  Claim C4, as the code has it. \<open>createAndLoadProject\<close> never leaves with a fault. When a
  collaborator call inside its \<open>try\<close> block throws, exactly one status flagged as an error
  is sent, and none otherwise. The orchestrator keeps no record of the failure: the
  current project is the one from before when the call that threw is \<open>Project::create\<close>
  or a call before it, and it is the newly created project when the call that threw
  comes after \<open>Project::create\<close> (or when no call threw). Equally, the current project
  is the new one exactly when \<open>Project::create\<close> was called and did not throw.
\<close>

theorem createAndLoadProject_fault_reported:
  "raised (createAndLoadProject env p s) = None
   \<and> errorStatuses (emitted (createAndLoadProject env p s)) =
       (if raised (createAndLoadProject_try env p s) = None then []
        else [MessageStatus ''Failed to load project.'' True False])
   \<and> (m_project (after (createAndLoadProject env p s)) = m_project s
      \<or> m_project (after (createAndLoadProject env p s)) = Some (Project p))
   \<and> m_project (after (createAndLoadProject env p s)) =
       (case raised (createAndLoadProject_try env p s) of
          None \<Rightarrow> Some (Project p)
        | Some (Exception c) \<Rightarrow> if afterCreate c then Some (Project p) else m_project s
        | Some NullPointer \<Rightarrow> m_project s)
   \<and> m_project (after (createAndLoadProject env p s)) =
       (if Call (Project_create p) \<in> set (emitted (createAndLoadProject env p s))
           \<and> \<not> throws env (Project_create p)
        then Some (Project p) else m_project s)"
proof -
  obtain r s' es where t: "createAndLoadProject_try env p s = (r, s', es)"
    by (cases "createAndLoadProject_try env p s") auto
  have n: "r \<noteq> Some NullPointer"
    using createAndLoadProject_try_raised [of env p s] by (simp add: t raised_def)
  have q: "statusesDispatched es = []"
    using createAndLoadProject_try_calls [of env p s]
    by (simp add: t emitted_def statusesDispatched_calls)
  have a: "after (createAndLoadProject env p s) = s'"
    using n unfolding createAndLoadProject_by_try t
    by (cases r; cases "the r") (auto simp: after_def)
  have d: "m_project s' = m_project s \<or> m_project s' = Some (Project p)"
    using createAndLoadProject_try_project [of env p s] by (simp add: t after_def)
  have f: "m_project s' =
       (case raised (createAndLoadProject_try env p s) of
          None \<Rightarrow> Some (Project p)
        | Some (Exception c) \<Rightarrow> if afterCreate c then Some (Project p) else m_project s
        | Some NullPointer \<Rightarrow> m_project s)"
    using createAndLoadProject_try_project_by_fault [of env p s]
    by (simp add: t after_def)
  have e: "m_project s' =
       (if Call (Project_create p) \<in> set (emitted (createAndLoadProject env p s))
           \<and> \<not> throws env (Project_create p)
        then Some (Project p) else m_project s)"
    unfolding createAndLoadProject_try_create_once
    using createAndLoadProject_try_project_by_events [of env p s]
    by (simp add: t after_def)
  have st: "raised (createAndLoadProject env p s) = None
   \<and> errorStatuses (emitted (createAndLoadProject env p s)) =
       (if raised (createAndLoadProject_try env p s) = None then []
        else [MessageStatus ''Failed to load project.'' True False])"
    using n q unfolding createAndLoadProject_by_try t
    by (cases r; cases "the r")
      (auto simp: raised_def emitted_def errorStatuses_def statusesDispatched_append)
  show ?thesis
    unfolding a using st d f e by (intro conjI) simp_all
qed

text \<open>
  The load of A while B is current. When \<open>refreshViews\<close> throws, one error status is
  sent, no fault leaves and A is current; when \<open>Project::create\<close> throws, one error
  status is sent and B stays current.
\<close>

theorem createAndLoadProject_fault_example:
  "raised (createAndLoadProject refreshViews_throws ''A'' (with_project ''B'' started_with_GUI))
     = None
   \<and> raised (createAndLoadProject_try refreshViews_throws ''A''
        (with_project ''B'' started_with_GUI)) = Some (Exception ComponentManager_refreshViews)
   \<and> errorStatuses (emitted (createAndLoadProject refreshViews_throws ''A''
        (with_project ''B'' started_with_GUI)))
       = [MessageStatus ''Failed to load project.'' True False]
   \<and> m_project (after (createAndLoadProject refreshViews_throws ''A''
        (with_project ''B'' started_with_GUI))) = Some (Project ''A'')
   \<and> raised (createAndLoadProject_try create_throws ''A''
        (with_project ''B'' started_with_GUI)) = Some (Exception (Project_create ''A''))
   \<and> errorStatuses (emitted (createAndLoadProject create_throws ''A''
        (with_project ''B'' started_with_GUI)))
       = [MessageStatus ''Failed to load project.'' True False]
   \<and> m_project (after (createAndLoadProject create_throws ''A''
        (with_project ''B'' started_with_GUI))) = Some (Project ''B'')"
proof -
  have r: "raised (createAndLoadProject_try refreshViews_throws ''A''
        (with_project ''B'' started_with_GUI)) = Some (Exception ComponentManager_refreshViews)"
    by (simp add: createAndLoadProject_try_def updateRecentProjects_def loadProject_def
        store_defs action_defs no_faults_def refreshViews_throws_def started_with_GUI_def
        with_project_def)
  have c: "raised (createAndLoadProject_try create_throws ''A''
        (with_project ''B'' started_with_GUI)) = Some (Exception (Project_create ''A''))"
    by (simp add: createAndLoadProject_try_def updateRecentProjects_def loadProject_def
        store_defs action_defs no_faults_def create_throws_def started_with_GUI_def
        with_project_def)
  have b: "m_project (with_project ''B'' started_with_GUI) = Some (Project ''B'')"
    by (simp add: with_project_def)
  note t1 = createAndLoadProject_fault_reported
      [of refreshViews_throws "''A''" "with_project ''B'' started_with_GUI", unfolded r]
  note t2 = createAndLoadProject_fault_reported
      [of create_throws "''A''" "with_project ''B'' started_with_GUI", unfolded c]
  show ?thesis
    using t1 t2 r c b by simp
qed

text \<open>
  Claim C4 as stated fails in its part on the state: after a load in which
  \<open>refreshViews\<close> threw, the orchestrator is in the very state a load without fault
  leaves, with A as the current project.
\<close>

theorem createAndLoadProject_no_Failed_state:
  "raised (createAndLoadProject_try refreshViews_throws ''A'' started_with_GUI) =
     Some (Exception ComponentManager_refreshViews)
   \<and> after (createAndLoadProject refreshViews_throws ''A'' started_with_GUI) =
       after (createAndLoadProject no_faults ''A'' started_with_GUI)
   \<and> m_project (after (createAndLoadProject refreshViews_throws ''A'' started_with_GUI)) =
       Some (Project ''A'')"
  by (simp add: createAndLoadProject_by_try createAndLoadProject_try_def
      updateRecentProjects_def loadProject_def store_defs action_defs no_faults_def
      refreshViews_throws_def started_with_GUI_def)


section \<open>The LoadProject handler\<close>

text \<open>
  Claim C5, as the code has it. A LoadProject message without the force flag whose path is
  the path of the current project only reloads settings and style: no project is created,
  the recent-projects list is not set and no status is sent. This holds whatever happened
  to the load that made the project current, since the orchestrator records no failure.
  When no collaborator throws and the path is not the current project's, handling the
  message twice in a row creates the project exactly once, sets the recent-projects list
  once with a GUI and never without one, and the second handling is the settings reload
  alone.
\<close>

theorem handleMessage_LoadProject_same_path_not_reloaded:
  fixes env :: Collaborators and p :: FilePath and s s0 :: Application
  defines "r1 \<equiv> handleMessage_LoadProject env (MessageLoadProject p False) s0"
  defines "r2 \<equiv> handleMessage_LoadProject env (MessageLoadProject p False) (after r1)"
  shows "(m_project s = Some (Project p) \<longrightarrow>
       handleMessage_LoadProject env (MessageLoadProject p False) s = loadSettings env s
     \<and> m_project (after (handleMessage_LoadProject env (MessageLoadProject p False) s)) =
         Some (Project p)
     \<and> \<not> list_ex isProjectCreate
           (emitted (handleMessage_LoadProject env (MessageLoadProject p False) s))
     \<and> \<not> list_ex isRecentProjectsUpdate
           (emitted (handleMessage_LoadProject env (MessageLoadProject p False) s))
     \<and> statusesDispatched
           (emitted (handleMessage_LoadProject env (MessageLoadProject p False) s)) = [])
   \<and> (throws env = (\<lambda>c. False) \<and> p \<noteq> [] \<and> other_project p s0 \<longrightarrow>
       filter isProjectCreate (emitted r1 @ emitted r2) = [Call (Project_create p)]
     \<and> length (filter isRecentProjectsUpdate (emitted r1 @ emitted r2)) =
         (if m_hasGUI s0 then 1 else 0)
     \<and> m_project (after r2) = Some (Project p)
     \<and> r2 = loadSettings env (after r1))"
proof (intro conjI impI)
  assume same: "m_project s = Some (Project p)"
  then have "\<not> other_project p s" by (simp add: other_project_def)
  then show h: "handleMessage_LoadProject env (MessageLoadProject p False) s =
      loadSettings env s"
    by (simp add: handleMessage_LoadProject_nothing_to_load)
  show "m_project (after (handleMessage_LoadProject env (MessageLoadProject p False) s)) =
      Some (Project p)"
    "\<not> list_ex isProjectCreate
       (emitted (handleMessage_LoadProject env (MessageLoadProject p False) s))"
    "\<not> list_ex isRecentProjectsUpdate
       (emitted (handleMessage_LoadProject env (MessageLoadProject p False) s))"
    "statusesDispatched
       (emitted (handleMessage_LoadProject env (MessageLoadProject p False) s)) = []"
    unfolding h using same by (simp_all add: loadSettings_frame loadSettings_quiet)
next
  assume a: "throws env = (\<lambda>c. False) \<and> p \<noteq> [] \<and> other_project p s0"
  let ?s = "s0\<lparr>appSettings := settingsFile s0\<rparr>"
  obtain r s' es where c: "createAndLoadProject env p ?s = (r, s', es)"
    by (cases "createAndLoadProject env p ?s") auto
  have r1: "r1 = (r, s',
      [Call ApplicationSettings_load,
       Call (ColorScheme_load (getColorSchemePath (settingsFile s0))),
       Call GraphViewStyle_loadStyleSettings] @ es)"
    unfolding r1_def using a by (simp add: handleMessage_LoadProject_loads c)
  have es: "filter isProjectCreate es = [Call (Project_create p)]"
    "length (filter isRecentProjectsUpdate es) = (if m_hasGUI s0 then 1 else 0)"
    and s': "m_project s' = Some (Project p)"
    using createAndLoadProject_returns [of env p ?s] a
    by (simp_all add: c emitted_def after_def)
  have "\<not> other_project p (after r1)"
    by (simp add: r1 after_def s' other_project_def)
  then show r2: "r2 = loadSettings env (after r1)"
    unfolding r2_def by (simp add: handleMessage_LoadProject_nothing_to_load)
  have q: "filter isProjectCreate (emitted r2) = []"
    "filter isRecentProjectsUpdate (emitted r2) = []"
    unfolding r2 using loadSettings_quiet(1,2) [of env "after r1"]
    by (simp_all add: list_ex_iff filter_empty_conv)
  show "filter isProjectCreate (emitted r1 @ emitted r2) = [Call (Project_create p)]"
    "length (filter isRecentProjectsUpdate (emitted r1 @ emitted r2)) =
       (if m_hasGUI s0 then 1 else 0)"
    using es q by (simp_all add: r1 emitted_def)
  show "m_project (after r2) = Some (Project p)"
    unfolding r2 by (simp add: loadSettings_frame) (simp add: r1 after_def s')
qed

text \<open>Loading A twice from the start state with a GUI: one creation, then only a reload.\<close>

theorem handleMessage_LoadProject_twice_example:
  "m_project (after (handleMessage_LoadProject no_faults (MessageLoadProject ''A'' False)
       started_with_GUI)) = Some (Project ''A'')
   \<and> emitted (handleMessage_LoadProject no_faults (MessageLoadProject ''A'' False)
        (after (handleMessage_LoadProject no_faults (MessageLoadProject ''A'' False)
           started_with_GUI))) =
       [Call ApplicationSettings_load, Call (ColorScheme_load ''scheme.xml''),
        Call GraphViewStyle_loadStyleSettings]
   \<and> throws no_faults = (\<lambda>c. False) \<and> ''A'' \<noteq> [] \<and> other_project ''A'' started_with_GUI
   \<and> filter isProjectCreate
        (emitted (handleMessage_LoadProject no_faults (MessageLoadProject ''A'' False)
           started_with_GUI) @
         emitted (handleMessage_LoadProject no_faults (MessageLoadProject ''A'' False)
           (after (handleMessage_LoadProject no_faults (MessageLoadProject ''A'' False)
              started_with_GUI)))) = [Call (Project_create ''A'')]"
proof -
  let ?s1 = "after (handleMessage_LoadProject no_faults (MessageLoadProject ''A'' False)
       started_with_GUI)"
  have p: "m_project ?s1 = Some (Project ''A'')"
    by (simp add: handleMessage_LoadProject_A_started after_def)
  have h: "throws no_faults = (\<lambda>c. False) \<and> ''A'' \<noteq> [] \<and> other_project ''A'' started_with_GUI"
    by (simp add: no_faults_def other_project_def started_with_GUI_def)
  have l: "emitted (loadSettings no_faults ?s1) =
      [Call ApplicationSettings_load, Call (ColorScheme_load ''scheme.xml''),
       Call GraphViewStyle_loadStyleSettings]"
    using h by (simp add: handleMessage_LoadProject_A_started after_def
        loadSettings_returns emitted_def)
  note t = handleMessage_LoadProject_same_path_not_reloaded
      [of ?s1 "''A''" no_faults started_with_GUI]
  from t p have a: "handleMessage_LoadProject no_faults (MessageLoadProject ''A'' False) ?s1 =
      loadSettings no_faults ?s1"
    by blast
  from t h have b: "filter isProjectCreate
      (emitted (handleMessage_LoadProject no_faults (MessageLoadProject ''A'' False)
         started_with_GUI) @
       emitted (handleMessage_LoadProject no_faults (MessageLoadProject ''A'' False) ?s1)) =
      [Call (Project_create ''A'')]"
    by blast
  show ?thesis
  proof (intro conjI)
    show "m_project ?s1 = Some (Project ''A'')" by (rule p)
    show "emitted (handleMessage_LoadProject no_faults (MessageLoadProject ''A'' False) ?s1) =
        [Call ApplicationSettings_load, Call (ColorScheme_load ''scheme.xml''),
         Call GraphViewStyle_loadStyleSettings]"
      unfolding a by (rule l)
    show "throws no_faults = (\<lambda>c. False)" "''A'' \<noteq> []"
      "other_project ''A'' started_with_GUI"
      using h by simp_all
    show "filter isProjectCreate
      (emitted (handleMessage_LoadProject no_faults (MessageLoadProject ''A'' False)
         started_with_GUI) @
       emitted (handleMessage_LoadProject no_faults (MessageLoadProject ''A'' False) ?s1)) =
      [Call (Project_create ''A'')]"
      by (rule b)
  qed
qed

text \<open>
  Claim C5 as stated fails: the load of A reported a failure (\<open>refreshViews\<close> threw), and
  the next LoadProject for A does not attempt the load again.
\<close>

theorem handleMessage_LoadProject_no_retry_after_failure:
  "errorStatuses (emitted (handleMessage_LoadProject refreshViews_throws
       (MessageLoadProject ''A'' False) started_with_GUI)) =
     [MessageStatus ''Failed to load project.'' True False]
   \<and> emitted (handleMessage_LoadProject no_faults (MessageLoadProject ''A'' False)
        after_failed_load_of_A) =
       [Call ApplicationSettings_load, Call (ColorScheme_load ''scheme.xml''),
        Call GraphViewStyle_loadStyleSettings]"
  by (simp add: after_failed_load_of_A_def handleMessage_LoadProject_def loadSettings_def
      loadStyle_def createAndLoadProject_by_try createAndLoadProject_try_def
      updateRecentProjects_def loadProject_def store_defs action_defs other_project_def
      recentProjects_updated_eq no_faults_def refreshViews_throws_def started_with_GUI_def
      errorStatuses_def)


text \<open>
  Claim C9. In trial mode a LoadProject message with the force flag is handled exactly as
  the same message without it: the user is not asked, no refresh of either kind is
  requested, and the project is loaded only when its path is not empty and no project or
  one with another path is current; otherwise the handler is the settings reload alone.
\<close>

theorem handleMessage_LoadProject_trial_ignores_force:
  assumes "isTrial env"
  shows "handleMessage_LoadProject env (MessageLoadProject p True) s =
           handleMessage_LoadProject env (MessageLoadProject p False) s
    \<and> \<not> list_ex asksOrRefreshes
          (emitted (handleMessage_LoadProject env (MessageLoadProject p True) s))
    \<and> (if p = [] \<or> \<not> other_project p s
        then handleMessage_LoadProject env (MessageLoadProject p True) s = loadSettings env s
        else handleMessage_LoadProject env (MessageLoadProject p True) s =
               seqA [loadSettings env, createAndLoadProject env p] s)"
proof -
  have n: "\<not> forceRefresh (MessageLoadProject p f) \<or> isTrial env" for f
    using assms by simp
  have eq: "handleMessage_LoadProject env (MessageLoadProject p True) s =
      handleMessage_LoadProject env (MessageLoadProject p False) s"
    by (simp add: handleMessage_LoadProject_not_forced [OF n] del: seqA.simps cong: if_cong)
  have idle: "handleMessage_LoadProject env (MessageLoadProject p True) s = loadSettings env s"
    if "p = [] \<or> \<not> other_project p s"
    using that handleMessage_LoadProject_nothing_to_load [OF n, of True s] by simp
  have load: "handleMessage_LoadProject env (MessageLoadProject p True) s =
      seqA [loadSettings env, createAndLoadProject env p] s"
    if "\<not> (p = [] \<or> \<not> other_project p s)"
  proof -
    obtain r s' es where l: "loadSettings env s = (r, s', es)"
      by (cases "loadSettings env s") auto
    have "other_project p s'"
      using that other_project_loadSettings [of p env s] by (simp add: l after_def)
    then show ?thesis
      using that unfolding handleMessage_LoadProject_not_forced [OF n] seqA_two l
      by (cases r) auto
  qed
  show ?thesis
    using eq idle load handleMessage_LoadProject_not_forced_quiet [OF n, of True s]
    by simp
qed

text \<open>Trial mode, A current, forced LoadProject for A: only the settings reload.\<close>

theorem handleMessage_LoadProject_trial_example:
  "isTrial trial_version
   \<and> handleMessage_LoadProject trial_version (MessageLoadProject ''A'' True)
       (with_project ''A'' started_with_GUI) =
     handleMessage_LoadProject trial_version (MessageLoadProject ''A'' False)
       (with_project ''A'' started_with_GUI)
   \<and> emitted (handleMessage_LoadProject trial_version (MessageLoadProject ''A'' True)
       (with_project ''A'' started_with_GUI)) =
       [Call ApplicationSettings_load, Call (ColorScheme_load ''scheme.xml''),
        Call GraphViewStyle_loadStyleSettings]"
proof -
  have t: "isTrial trial_version"
    by (simp add: trial_version_def no_faults_def)
  have nf: "throws trial_version = (\<lambda>c. False)"
    by (simp add: trial_version_def no_faults_def)
  have o: "\<not> other_project ''A'' (with_project ''A'' started_with_GUI)"
    by (simp add: other_project_def with_project_def)
  have l: "emitted (loadSettings trial_version (with_project ''A'' started_with_GUI)) =
      [Call ApplicationSettings_load, Call (ColorScheme_load ''scheme.xml''),
        Call GraphViewStyle_loadStyleSettings]"
    by (simp add: loadSettings_returns [OF nf] emitted_def with_project_def
        started_with_GUI_def)
  note th = handleMessage_LoadProject_trial_ignores_force
      [OF t, of "''A''" "with_project ''A'' started_with_GUI"]
  from th have e: "handleMessage_LoadProject trial_version (MessageLoadProject ''A'' True)
       (with_project ''A'' started_with_GUI) =
     handleMessage_LoadProject trial_version (MessageLoadProject ''A'' False)
       (with_project ''A'' started_with_GUI)"
    by (rule conjunct1)
  from o th have a: "handleMessage_LoadProject trial_version (MessageLoadProject ''A'' True)
       (with_project ''A'' started_with_GUI) =
     loadSettings trial_version (with_project ''A'' started_with_GUI)"
    by (elim conjE) simp
  show ?thesis
    by (intro conjI) (rule t, rule e, simp add: a l)
qed

text \<open>
  Claim C10. A LoadProject message with an empty path is handled by reloading settings
  and style and nothing else: the current project and the persisted settings stay, the
  settings in memory are the old or the persisted ones (so nothing changes when they
  agree), the only events are the settings load and the two style loads, no status is
  sent, no project is created or refreshed, nothing is asked and the recent-projects
  list is not set.
\<close>

theorem handleMessage_LoadProject_empty_path:
  assumes "projectSettingsFilePath message = []"
  shows "handleMessage_LoadProject env message s = loadSettings env s
    \<and> m_project (after (handleMessage_LoadProject env message s)) = m_project s
    \<and> settingsFile (after (handleMessage_LoadProject env message s)) = settingsFile s
    \<and> (appSettings (after (handleMessage_LoadProject env message s)) = appSettings s
       \<or> appSettings (after (handleMessage_LoadProject env message s)) = settingsFile s)
    \<and> list_all isSettingsOrStyleLoad (emitted (handleMessage_LoadProject env message s))
    \<and> statusesDispatched (emitted (handleMessage_LoadProject env message s)) = []
    \<and> \<not> list_ex isProjectCreate (emitted (handleMessage_LoadProject env message s))
    \<and> \<not> list_ex asksOrRefreshes (emitted (handleMessage_LoadProject env message s))
    \<and> \<not> list_ex isRecentProjectsUpdate (emitted (handleMessage_LoadProject env message s))
    \<and> (appSettings s = settingsFile s \<longrightarrow>
         after (handleMessage_LoadProject env message s) = s)
    \<and> (throws env = (\<lambda>c. False) \<longrightarrow>
         handleMessage_LoadProject env message s =
          (None, s\<lparr>appSettings := settingsFile s\<rparr>,
           [Call ApplicationSettings_load,
            Call (ColorScheme_load (getColorSchemePath (settingsFile s))),
            Call GraphViewStyle_loadStyleSettings]))"
  unfolding handleMessage_LoadProject_empty [OF assms]
  using loadSettings_appSettings [of env s] loadSettings_events [of env s]
    loadSettings_after [of env s]
  by (auto simp: loadSettings_frame loadSettings_quiet loadSettings_returns)

text \<open>An empty path with A current: the three loads, and the state as before.\<close>

theorem handleMessage_LoadProject_empty_path_example:
  "projectSettingsFilePath (MessageLoadProject [] True) = []
   \<and> handleMessage_LoadProject no_faults (MessageLoadProject [] True)
       (with_project ''A'' started_with_GUI) =
     (None, with_project ''A'' started_with_GUI,
      [Call ApplicationSettings_load, Call (ColorScheme_load ''scheme.xml''),
       Call GraphViewStyle_loadStyleSettings])"
proof -
  have e: "projectSettingsFilePath (MessageLoadProject [] True) = []" by simp
  have nf: "throws no_faults = (\<lambda>c. False)" by (simp add: no_faults_def)
  note th = handleMessage_LoadProject_empty_path
      [OF e, of no_faults "with_project ''A'' started_with_GUI"]
  from nf th have a: "handleMessage_LoadProject no_faults (MessageLoadProject [] True)
       (with_project ''A'' started_with_GUI) =
     (None,
      (with_project ''A'' started_with_GUI)
        \<lparr>appSettings := settingsFile (with_project ''A'' started_with_GUI)\<rparr>,
      [Call ApplicationSettings_load,
       Call (ColorScheme_load
         (getColorSchemePath (settingsFile (with_project ''A'' started_with_GUI)))),
       Call GraphViewStyle_loadStyleSettings])"
    by (elim conjE) simp
  show ?thesis
    unfolding a by (simp add: with_project_def started_with_GUI_def)
qed


text \<open>
  Claim C2, as the code has it, for a forced LoadProject outside trial mode when no
  collaborator throws. With a GUI the confirmation dialog with the options Yes and No
  comes right after the settings reload and before anything else. If the answer is
  index 1 (No) and no project or one with another path is current, the project of the
  message is created and loaded as by an unforced load, without a forced refresh. If the
  answer is not 1 and a project is current, that project is refreshed by force. Without
  a GUI and with a current project the forced refresh runs and nothing is asked.
\<close>

theorem handleMessage_LoadProject_force_asks_with_GUI:
  assumes "throws env = (\<lambda>c. False)" and "p \<noteq> []" and "\<not> isTrial env"
  shows "(m_hasGUI s \<longrightarrow>
       take 4 (emitted (handleMessage_LoadProject env (MessageLoadProject p True) s)) =
         [Call ApplicationSettings_load,
          Call (ColorScheme_load (getColorSchemePath (settingsFile s))),
          Call GraphViewStyle_loadStyleSettings,
          Call (MainView_confirm reindex_question [''Yes'', ''No''])])
    \<and> (m_hasGUI s \<and> confirmResult env = 1 \<and> other_project p s \<longrightarrow>
        raised (handleMessage_LoadProject env (MessageLoadProject p True) s) = None
      \<and> after (handleMessage_LoadProject env (MessageLoadProject p True) s) =
          after (createAndLoadProject env p (s\<lparr>appSettings := settingsFile s\<rparr>))
      \<and> m_project (after (handleMessage_LoadProject env (MessageLoadProject p True) s)) =
          Some (Project p)
      \<and> drop 4 (emitted (handleMessage_LoadProject env (MessageLoadProject p True) s)) =
          emitted (createAndLoadProject env p (s\<lparr>appSettings := settingsFile s\<rparr>))
      \<and> Call Project_forceRefresh
          \<notin> set (emitted (handleMessage_LoadProject env (MessageLoadProject p True) s)))
    \<and> (m_hasGUI s \<and> confirmResult env \<noteq> 1 \<and> m_project s \<noteq> None \<longrightarrow>
        raised (handleMessage_LoadProject env (MessageLoadProject p True) s) = None
      \<and> m_project (after (handleMessage_LoadProject env (MessageLoadProject p True) s)) =
          m_project s
      \<and> drop 4 (emitted (handleMessage_LoadProject env (MessageLoadProject p True) s)) =
          [Dispatch (Status (MessageStatus ''Refreshing Project'' False False)),
           Call StorageCache_clear,
           Call ComponentManager_refreshViews,
           Call Project_forceRefresh])
    \<and> (\<not> m_hasGUI s \<and> m_project s \<noteq> None \<longrightarrow>
        raised (handleMessage_LoadProject env (MessageLoadProject p True) s) = None
      \<and> m_project (after (handleMessage_LoadProject env (MessageLoadProject p True) s)) =
          m_project s
      \<and> emitted (handleMessage_LoadProject env (MessageLoadProject p True) s) =
          [Call ApplicationSettings_load,
           Call (ColorScheme_load (getColorSchemePath (settingsFile s))),
           Call GraphViewStyle_loadStyleSettings,
           Dispatch (Status (MessageStatus ''Refreshing Project'' False False)),
           Call StorageCache_clear,
           Call Project_forceRefresh])"
proof -
  let ?s = "s\<lparr>appSettings := settingsFile s\<rparr>"
  note h = handleMessage_LoadProject_forced [OF assms, of s]
  obtain r s' es where c: "createAndLoadProject env p ?s = (r, s', es)"
    by (cases "createAndLoadProject env p ?s") auto
  have cr: "r = None" "m_project s' = Some (Project p)"
    using createAndLoadProject_returns(1,2) [OF assms(1), of p ?s]
    by (simp_all add: c raised_def after_def)
  have cq: "Call Project_forceRefresh \<notin> set es"
    using createAndLoadProject_quiet [of env p ?s]
    by (auto simp: c emitted_def list_ex_iff)
  have asks: "m_hasGUI s \<longrightarrow>
       take 4 (emitted (handleMessage_LoadProject env (MessageLoadProject p True) s)) =
         [Call ApplicationSettings_load,
          Call (ColorScheme_load (getColorSchemePath (settingsFile s))),
          Call GraphViewStyle_loadStyleSettings,
          Call (MainView_confirm reindex_question [''Yes'', ''No''])]"
    by (simp add: h emitted_def split: prod.splits)
  have declined: "m_hasGUI s \<and> confirmResult env = 1 \<and> other_project p s \<longrightarrow>
        raised (handleMessage_LoadProject env (MessageLoadProject p True) s) = None
      \<and> after (handleMessage_LoadProject env (MessageLoadProject p True) s) =
          after (createAndLoadProject env p ?s)
      \<and> m_project (after (handleMessage_LoadProject env (MessageLoadProject p True) s)) =
          Some (Project p)
      \<and> drop 4 (emitted (handleMessage_LoadProject env (MessageLoadProject p True) s)) =
          emitted (createAndLoadProject env p ?s)
      \<and> Call Project_forceRefresh
          \<notin> set (emitted (handleMessage_LoadProject env (MessageLoadProject p True) s))"
    using cr cq by (simp add: h c raised_def after_def emitted_def)
  have refreshes: "m_project s \<noteq> None \<longrightarrow>
      refreshProject env True ?s =
        (None, ?s,
         [Dispatch (Status (MessageStatus ''Refreshing Project'' False False)),
          Call StorageCache_clear] @
         (if m_hasGUI s then [Call ComponentManager_refreshViews] else []) @
         [Call Project_forceRefresh])"
    using refreshProject_returns [OF assms(1), of ?s True] by simp
  have accepted: "m_hasGUI s \<and> confirmResult env \<noteq> 1 \<and> m_project s \<noteq> None \<longrightarrow>
        raised (handleMessage_LoadProject env (MessageLoadProject p True) s) = None
      \<and> m_project (after (handleMessage_LoadProject env (MessageLoadProject p True) s)) =
          m_project s
      \<and> drop 4 (emitted (handleMessage_LoadProject env (MessageLoadProject p True) s)) =
          [Dispatch (Status (MessageStatus ''Refreshing Project'' False False)),
           Call StorageCache_clear,
           Call ComponentManager_refreshViews,
           Call Project_forceRefresh]"
    using refreshes by (simp add: h raised_def after_def emitted_def)
  have headless: "\<not> m_hasGUI s \<and> m_project s \<noteq> None \<longrightarrow>
        raised (handleMessage_LoadProject env (MessageLoadProject p True) s) = None
      \<and> m_project (after (handleMessage_LoadProject env (MessageLoadProject p True) s)) =
          m_project s
      \<and> emitted (handleMessage_LoadProject env (MessageLoadProject p True) s) =
          [Call ApplicationSettings_load,
           Call (ColorScheme_load (getColorSchemePath (settingsFile s))),
           Call GraphViewStyle_loadStyleSettings,
           Dispatch (Status (MessageStatus ''Refreshing Project'' False False)),
           Call StorageCache_clear,
           Call Project_forceRefresh]"
    using refreshes by (simp add: h raised_def after_def emitted_def)
  from asks declined accepted headless show ?thesis by (intro conjI)
qed

text \<open>The three cases at concrete inputs.\<close>

theorem handleMessage_LoadProject_force_examples:
  "throws user_declines = (\<lambda>c. False) \<and> \<not> isTrial user_declines
   \<and> m_hasGUI started_with_GUI \<and> confirmResult user_declines = 1
   \<and> other_project ''A'' started_with_GUI
   \<and> m_project (after (handleMessage_LoadProject user_declines
         (MessageLoadProject ''A'' True) started_with_GUI)) = Some (Project ''A'')
   \<and> confirmResult no_faults \<noteq> 1 \<and> m_project with_GUI_and_project_A \<noteq> None
   \<and> emitted (handleMessage_LoadProject no_faults (MessageLoadProject ''A'' True)
         with_GUI_and_project_A) =
       [Call ApplicationSettings_load, Call (ColorScheme_load ''scheme.xml''),
        Call GraphViewStyle_loadStyleSettings,
        Call (MainView_confirm reindex_question [''Yes'', ''No'']),
        Dispatch (Status (MessageStatus ''Refreshing Project'' False False)),
        Call StorageCache_clear,
        Call ComponentManager_refreshViews,
        Call Project_forceRefresh]
   \<and> \<not> m_hasGUI without_GUI_and_project_A
   \<and> emitted (handleMessage_LoadProject no_faults (MessageLoadProject ''A'' True)
         without_GUI_and_project_A) =
       [Call ApplicationSettings_load, Call (ColorScheme_load ''scheme.xml''),
        Call GraphViewStyle_loadStyleSettings,
        Dispatch (Status (MessageStatus ''Refreshing Project'' False False)),
        Call StorageCache_clear,
        Call Project_forceRefresh]"
proof -
  have d: "throws user_declines = (\<lambda>c. False)" "''A'' \<noteq> []" "\<not> isTrial user_declines"
    and n: "throws no_faults = (\<lambda>c. False)" "\<not> isTrial no_faults"
    by (simp_all add: user_declines_def no_faults_def)
  have d': "m_hasGUI started_with_GUI \<and> confirmResult user_declines = 1
      \<and> other_project ''A'' started_with_GUI"
    by (simp add: user_declines_def no_faults_def started_with_GUI_def other_project_def)
  have g: "m_hasGUI with_GUI_and_project_A \<and> confirmResult no_faults \<noteq> 1
      \<and> m_project with_GUI_and_project_A \<noteq> None"
    "getColorSchemePath (settingsFile with_GUI_and_project_A) = ''scheme.xml''"
    by (simp_all add: with_GUI_and_project_A_def with_project_def started_with_GUI_def
        no_faults_def)
  have w: "\<not> m_hasGUI without_GUI_and_project_A \<and> m_project without_GUI_and_project_A \<noteq> None"
    "getColorSchemePath (settingsFile without_GUI_and_project_A) = ''scheme.xml''"
    by (simp_all add: without_GUI_and_project_A_def with_project_def
        started_without_GUI_def started_with_GUI_def)
  note t1 = handleMessage_LoadProject_force_asks_with_GUI [OF d, of started_with_GUI]
  note t2 = handleMessage_LoadProject_force_asks_with_GUI
      [OF n(1) d(2) n(2), of with_GUI_and_project_A]
  note t3 = handleMessage_LoadProject_force_asks_with_GUI
      [OF n(1) d(2) n(2), of without_GUI_and_project_A]
  from t1 d' have a1: "m_project (after (handleMessage_LoadProject user_declines
         (MessageLoadProject ''A'' True) started_with_GUI)) = Some (Project ''A'')"
    by blast
  from t2 g(1) have a2: "take 4 (emitted (handleMessage_LoadProject no_faults
        (MessageLoadProject ''A'' True) with_GUI_and_project_A)) =
         [Call ApplicationSettings_load,
          Call (ColorScheme_load (getColorSchemePath (settingsFile with_GUI_and_project_A))),
          Call GraphViewStyle_loadStyleSettings,
          Call (MainView_confirm reindex_question [''Yes'', ''No''])]"
    and a2': "drop 4 (emitted (handleMessage_LoadProject no_faults
        (MessageLoadProject ''A'' True) with_GUI_and_project_A)) =
          [Dispatch (Status (MessageStatus ''Refreshing Project'' False False)),
           Call StorageCache_clear,
           Call ComponentManager_refreshViews,
           Call Project_forceRefresh]"
    by blast+
  from t3 w(1) have a3: "emitted (handleMessage_LoadProject no_faults
        (MessageLoadProject ''A'' True) without_GUI_and_project_A) =
          [Call ApplicationSettings_load,
           Call (ColorScheme_load (getColorSchemePath (settingsFile without_GUI_and_project_A))),
           Call GraphViewStyle_loadStyleSettings,
           Dispatch (Status (MessageStatus ''Refreshing Project'' False False)),
           Call StorageCache_clear,
           Call Project_forceRefresh]"
    by blast
  have a2'': "emitted (handleMessage_LoadProject no_faults
        (MessageLoadProject ''A'' True) with_GUI_and_project_A) =
       [Call ApplicationSettings_load, Call (ColorScheme_load ''scheme.xml''),
        Call GraphViewStyle_loadStyleSettings,
        Call (MainView_confirm reindex_question [''Yes'', ''No'']),
        Dispatch (Status (MessageStatus ''Refreshing Project'' False False)),
        Call StorageCache_clear,
        Call ComponentManager_refreshViews,
        Call Project_forceRefresh]"
    using append_take_drop_id [of 4 "emitted (handleMessage_LoadProject no_faults
        (MessageLoadProject ''A'' True) with_GUI_and_project_A)"]
    unfolding a2 a2' g(2) by simp
  show ?thesis
    using d n d' g(1) w(1) a1 a2'' a3 [unfolded w(2)] by simp
qed

text \<open>
  Claim C2 as stated fails: with B current, a forced LoadProject for A that the user
  declines makes A the current project and puts A on the recent-projects list.
\<close>

theorem handleMessage_LoadProject_declined_loads_other_project:
  "confirmResult user_declines = 1
   \<and> m_project (with_project ''B'' started_with_GUI) = Some (Project ''B'')
   \<and> recentProjectsOf (with_project ''B'' started_with_GUI) = []
   \<and> raised (handleMessage_LoadProject user_declines (MessageLoadProject ''A'' True)
        (with_project ''B'' started_with_GUI)) = None
   \<and> m_project (after (handleMessage_LoadProject user_declines
        (MessageLoadProject ''A'' True) (with_project ''B'' started_with_GUI))) =
       Some (Project ''A'')
   \<and> recentProjectsOf (after (handleMessage_LoadProject user_declines
        (MessageLoadProject ''A'' True) (with_project ''B'' started_with_GUI))) = [''A'']"
  by (simp add: handleMessage_LoadProject_def loadSettings_def loadStyle_def
      createAndLoadProject_by_try createAndLoadProject_try_def updateRecentProjects_def
      loadProject_def store_defs action_defs other_project_def recentProjects_updated_eq
      no_faults_def user_declines_def started_with_GUI_def with_project_def
      recentProjectsOf_def)


section \<open>Switching the colour scheme\<close>

text \<open>
  Claim C6. Handling SwitchColorScheme leaves the whole state of the orchestrator (GUI
  flag, current project, settings in memory and persisted) as it was and makes no call to
  the settings store; when no collaborator throws its events are the colour-scheme load,
  the style load and then the dispatch of a refresh message that is UI-only and keeps the
  settings. Handling that refresh message in turn leaves the state alone, does not touch
  the settings store and only asks the component manager to refresh the views when a GUI
  is attached.
\<close>

theorem handleMessage_SwitchColorScheme_only_restyles:
  "after (handleMessage_SwitchColorScheme env message s) = s
   \<and> \<not> list_ex touchesSettings (emitted (handleMessage_SwitchColorScheme env message s))
   \<and> (throws env = (\<lambda>c. False) \<longrightarrow>
        handleMessage_SwitchColorScheme env message s =
          (None, s,
           [Call (ColorScheme_load (colorSchemePath message)),
            Call GraphViewStyle_loadStyleSettings,
            Dispatch (Refresh (MessageRefresh True False False))]))
   \<and> after (handleMessage_Refresh env (MessageRefresh True False False) s) = s
   \<and> \<not> list_ex touchesSettings
         (emitted (handleMessage_Refresh env (MessageRefresh True False False) s))
   \<and> (throws env = (\<lambda>c. False) \<longrightarrow>
        emitted (handleMessage_Refresh env (MessageRefresh True False False) s) =
          (if m_hasGUI s then [Call ComponentManager_refreshViews] else []))"
  by (simp add: handleMessage_SwitchColorScheme_def handleMessage_Refresh_def loadStyle_def
      MessageRefresh_new_def refreshUiOnly_def keepSettings_def action_defs)

text \<open>Switching to dark.xml with a GUI and A current.\<close>

theorem handleMessage_SwitchColorScheme_example:
  "throws no_faults = (\<lambda>c. False)
   \<and> handleMessage_SwitchColorScheme no_faults (MessageSwitchColorScheme ''dark.xml'')
       with_GUI_and_project_A =
     (None, with_GUI_and_project_A,
      [Call (ColorScheme_load ''dark.xml''), Call GraphViewStyle_loadStyleSettings,
       Dispatch (Refresh (MessageRefresh True False False))])"
proof -
  have n: "throws no_faults = (\<lambda>c. False)" by (simp add: no_faults_def)
  from n handleMessage_SwitchColorScheme_only_restyles
    [of no_faults "MessageSwitchColorScheme ''dark.xml''" with_GUI_and_project_A]
  show ?thesis by (elim conjE) simp
qed

section \<open>Start-up and shutdown order\<close>

text \<open>
  Claim C7. When no collaborator throws, the destructor stops the message loop, then the
  scheduler loop, and then, with a GUI only, saves the layout; start-up starts the
  scheduler loop before the message loop. The loops are stopped in the reverse of the
  order in which they were started.
\<close>

theorem shutdown_reverses_startup:
  assumes "throws env = (\<lambda>c. False)"
  shows "destroy_Application env s =
      (None, s,
       [Call MessageQueue_stopMessageLoop, Call TaskScheduler_stopSchedulerLoop] @
       (if m_hasGUI s then [Call MainView_saveLayout] else []))
    \<and> startMessagingAndScheduling env s0 =
      (None, s0,
       [Call TaskScheduler_startSchedulerLoopThreaded,
        Call (MessageQueue_setSendMessagesAsTasks True),
        Call MessageQueue_startMessageLoopThreaded])
    \<and> List.map_filter stopped (emitted (destroy_Application env s)) =
        rev (List.map_filter started (emitted (startMessagingAndScheduling env s0)))"
  using assms
  by (simp add: destroy_Application_def startMessagingAndScheduling_def action_defs
      List.map_filter_def)

text \<open>Shutdown with a GUI, and start-up.\<close>

theorem shutdown_with_GUI_example:
  "throws no_faults = (\<lambda>c. False)
   \<and> emitted (destroy_Application no_faults with_GUI_and_project_A) =
       [Call MessageQueue_stopMessageLoop, Call TaskScheduler_stopSchedulerLoop,
        Call MainView_saveLayout]
   \<and> emitted (startMessagingAndScheduling no_faults started_with_GUI) =
       [Call TaskScheduler_startSchedulerLoopThreaded,
        Call (MessageQueue_setSendMessagesAsTasks True),
        Call MessageQueue_startMessageLoopThreaded]"
proof -
  have n: "throws no_faults = (\<lambda>c. False)" by (simp add: no_faults_def)
  have g: "m_hasGUI with_GUI_and_project_A"
    by (simp add: with_GUI_and_project_A_def with_project_def started_with_GUI_def)
  from n g shutdown_reverses_startup [OF n, of with_GUI_and_project_A started_with_GUI]
  show ?thesis by (simp add: emitted_def)
qed


end
